theory Spec2Isabelle
  imports Complex_Main "HOL-Library.AList"
begin

section \<open>JavaScript values\<close>

text \<open>
  The connector reads strings from the process environment, decodes some of them as JSON
  and builds plain objects from them. A JavaScript number is either \<open>NaN\<close> or a
  numeric value; no arithmetic is done on numbers here, they are only parsed, tested for
  truthiness and stored. An object is the list of its own properties in enumeration order.
\<close>

datatype number = NaN | Number rat

datatype jsval =
    JUndefined
  | JNull
  | JBool bool
  | JNum number
  | JStr string
  | JBuffer string
  | JArr "jsval list"
  | JObj "(string \<times> jsval) list"

type_synonym obj = "(string \<times> jsval) list"

text \<open>The truthiness test of \<open>if (v)\<close>, \<open>v && e\<close>, \<open>v || e\<close> and \<open>!v\<close>.\<close>

fun truthyNumber :: "number \<Rightarrow> bool" where
  "truthyNumber NaN = False"
| "truthyNumber (Number q) = (q \<noteq> 0)"

fun truthy :: "jsval \<Rightarrow> bool" where
  "truthy JUndefined = False"
| "truthy JNull = False"
| "truthy (JBool b) = b"
| "truthy (JNum n) = truthyNumber n"
| "truthy (JStr s) = (s \<noteq> [])"
| "truthy (JBuffer b) = True"
| "truthy (JArr xs) = True"
| "truthy (JObj kvs) = True"

text \<open>
  Reading a property \<open>o.k\<close> of an object under a fixed name: the value stored under the
  key, or \<open>undefined\<close> when the object has no such property. The names read this way
  (\<open>key\<close>, \<open>password\<close>, \<open>username\<close>, \<open>cert\<close>, \<open>ca\<close>, \<open>account_uri\<close>,
  \<open>account\<close>, \<open>type\<close>, \<open>length\<close>) are not names of members of
  \<open>Object.prototype\<close>, so nothing is inherited under them.
\<close>

definition getField :: "obj \<Rightarrow> string \<Rightarrow> jsval" where
  "getField ob k = (case map_of ob k of None \<Rightarrow> JUndefined | Some v \<Rightarrow> v)"

text \<open>
  Reading a property \<open>o[k]\<close> under a name that comes from the input: the object's own
  property when it has one; otherwise, when the name is the name of a member of
  \<open>Object.prototype\<close>, that member (a built-in function, or the prototype itself for
  \<open>__proto__\<close>), which is not \<open>undefined\<close>; otherwise nothing.
\<close>

datatype property = NoProperty | Own jsval | Inherited string

definition objectPrototypeMembers :: "string list" where
  "objectPrototypeMembers =
     [''constructor'', ''hasOwnProperty'', ''isPrototypeOf'', ''propertyIsEnumerable'',
      ''toLocaleString'', ''toString'', ''valueOf'', ''__proto__'', ''__defineGetter__'',
      ''__defineSetter__'', ''__lookupGetter__'', ''__lookupSetter__'']"

definition readProperty :: "obj \<Rightarrow> string \<Rightarrow> property" where
  "readProperty ob k =
     (case map_of ob k of
        Some v \<Rightarrow> Own v
      | None \<Rightarrow> if k \<in> set objectPrototypeMembers then Inherited k else NoProperty)"

text \<open>The test \<open>o[k] === undefined\<close>.\<close>

definition isUndefined :: "property \<Rightarrow> bool" where
  "isUndefined p = (p = NoProperty \<or> p = Own JUndefined)"

text \<open>A string read from the environment, as a value: an unset variable is \<open>undefined\<close>.\<close>

definition ofEnv :: "string option \<Rightarrow> jsval" where
  "ofEnv v = (case v of None \<Rightarrow> JUndefined | Some s \<Rightarrow> JStr s)"

text \<open>\<open>_.omitBy(o, _.isUndefined)\<close>: a copy of the object without its undefined properties.\<close>

definition omitUndefined :: "obj \<Rightarrow> obj" where
  "omitUndefined ob = filter (\<lambda>kv. snd kv \<noteq> JUndefined) ob"

text \<open>\<open>String.prototype.endsWith\<close>.\<close>

definition endsWith :: "string \<Rightarrow> string \<Rightarrow> bool" where
  "endsWith s t = (length t \<le> length s \<and> drop (length s - length t) s = t)"

section \<open>Errors\<close>

text \<open>
  Every \<open>throw\<close> of the two source files is a constructor, and \<open>message\<close> is the
  text the source gives its \<open>Error\<close>. The last four are raised by the runtime, with a
  text of its own: \<open>SyntaxError\<close> by \<open>JSON.parse\<close> (it carries the rejected text),
  \<open>FsError\<close> by an uncaught \<open>fs.readFileSync\<close>, \<open>TypeError\<close> by a call of
  something that is not a function, a property read on \<open>undefined\<close>, a conversion
  to a string that fails or, under \<open>'use strict'\<close>, a write to a frozen object, and
  \<open>CannotFindModule\<close> by \<open>require\<close> for a module name that does not resolve.
\<close>

datatype error =
    MissingKeyOrPassword string
  | MissingUsername string
  | MissingCertificateOrKey string
  | MissingAccountUri string
  | FailedToReadCredentials string string
  | MissingAdminCertOrKey
  | FailedToReadAdminCredentials string
  | MissingNotificationSigningKeys string
  | FailedToReadSigningKey string string
  | FailedToParseNotificationKeys
  | DebugAutofundRequiresAdmin
  | SyntaxError string
  | FsError string
  | TypeError string
  | CannotFindModule string

fun message :: "error \<Rightarrow> string option" where
  "message (MissingKeyOrPassword l) = Some (''Missing key or password for ledger: '' @ l)"
| "message (MissingUsername l) = Some (''Missing username for ledger: '' @ l)"
| "message (MissingCertificateOrKey l) =
     Some (''Missing certificate or key for ledger: '' @ l)"
| "message (MissingAccountUri l) = Some (''Missing account_uri for ledger: '' @ l)"
| "message (FailedToReadCredentials l m) =
     Some (''Failed to read credentials for ledger '' @ l @ '': '' @ m)"
| "message MissingAdminCertOrKey = Some ''Missing ADMIN_CERT or ADMIN_KEY''"
| "message (FailedToReadAdminCredentials m) =
     Some (''Failed to read admin credentials: '' @ m)"
| "message (MissingNotificationSigningKeys u) =
     Some (''Missing notification signing keys for ledger: '' @ u)"
| "message (FailedToReadSigningKey u m) =
     Some (''Failed to read signing key for ledger '' @ u @ '': '' @ m)"
| "message FailedToParseNotificationKeys =
     Some ''Failed to parse CONNECTOR_NOTIFICATION_KEYS''"
| "message DebugAutofundRequiresAdmin =
     Some (''CONNECTOR_DEBUG_AUTOFUND requires either CONNECTOR_ADMIN_PASS '' @
           ''or CONNECTOR_ADMIN_KEY'')"
| "message (SyntaxError s) = None"
| "message (FsError m) = None"
| "message (TypeError m) = None"
| "message (CannotFindModule m) = None"

section \<open>The process and the libraries\<close>

text \<open>
  What a run of the connector observes: the process environment, the command line
  (\<open>process.argv[0]\<close> always exists, the rest may be empty), the file system through
  \<open>fs.accessSync\<close> (\<open>None\<close>: readable, \<open>Some m\<close>: it throws an error with message
  \<open>m\<close>) and \<open>fs.readFileSync\<close>, and the two fixture modules of the test suite,
  \<open>test/data/ledgerCredentials.json\<close> and \<open>test/data/tradingPairs.json\<close>, which are
  not part of the sources at hand.
\<close>

record world =
  process_env :: "string \<rightharpoonup> string"
  argv0 :: string
  argv_rest :: "string list"
  accessSync :: "jsval \<Rightarrow> string option"
  readFileSync :: "jsval \<Rightarrow> string + string"
  testLedgerCredentials :: "(string \<times> obj) list"
  testTradingPairs :: jsval

record currency_ledger =
  currency :: string
  ledger :: string

text \<open>
  The functions the source calls and does not define. \<open>JSON.parse\<close> is taken at the
  shape each call site expects (an object of credential objects, an array of strings, an
  object of keys, any value), \<open>None\<close> being the \<open>SyntaxError\<close>; \<open>toNumber\<close> is the
  conversion of a string by unary \<open>+\<close> and \<open>Number(...)\<close>; \<open>castBool\<close> is
  \<open>Config.castBool\<close> of five-bells-shared with its optional default;
  \<open>validateCondition\<close> is \<open>cc.validateCondition\<close> on a value (\<open>Some m\<close>: it throws
  an error with message \<open>m\<close>) and \<open>validateBuiltin\<close> is the same function on the member
  of \<open>Object.prototype\<close> of the given name; \<open>getPairs\<close> is \<open>Utils.getPairs\<close> of
  \<open>src/lib/utils\<close>; \<open>stringOfValue\<close> is the conversion of a value that is not a
  string in a string concatenation, or the \<open>TypeError\<close> the conversion throws.
\<close>

record lib =
  jsonCredentials :: "string \<Rightarrow> (string \<times> obj) list option"
  jsonLedgers :: "string \<Rightarrow> string list option"
  jsonKeys :: "string \<Rightarrow> obj option"
  jsonPairs :: "string \<Rightarrow> jsval option"
  toNumber :: "string \<Rightarrow> number"
  castBool :: "string option \<Rightarrow> bool option \<Rightarrow> bool"
  validateCondition :: "jsval \<Rightarrow> string option"
  validateBuiltin :: "string \<Rightarrow> string option"
  getPairs :: "currency_ledger list \<Rightarrow> currency_ledger list list"
  stringOfValue :: "jsval \<Rightarrow> error + string"

definition envPrefix :: string where
  "envPrefix = ''CONNECTOR''"

text \<open>\<open>Config.getEnv(envPrefix, name)\<close>: the variable \<open>CONNECTOR_<name>\<close>.\<close>

definition getEnv :: "world \<Rightarrow> string \<Rightarrow> string option" where
  "getEnv w name = process_env w (envPrefix @ ''_'' @ name)"

text \<open>
  \<open>JSON.parse(v || '<literal>')\<close>: an unset or empty variable decodes to the value of the
  literal, \<open>dflt\<close>; any other text goes through the parser.
\<close>

definition parseOr :: "(string \<Rightarrow> 'a option) \<Rightarrow> string option \<Rightarrow> 'a \<Rightarrow> error + 'a" where
  "parseOr parse v dflt =
     (case v of
        None \<Rightarrow> Inr dflt
      | Some s \<Rightarrow>
          if s = [] then Inr dflt
          else (case parse s of None \<Rightarrow> Inl (SyntaxError s) | Some x \<Rightarrow> Inr x))"

section \<open>Parsing the environment (src/lib/config.js)\<close>

definition parseCredentialsEnv :: "lib \<Rightarrow> world \<Rightarrow> error + (string \<times> obj) list" where
  "parseCredentialsEnv L w = parseOr (jsonCredentials L) (getEnv w ''CREDENTIALS'') []"

record admin_env =
  username :: string
  password :: "string option"
  key :: "string option"
  cert :: "string option"
  ca :: "string option"

definition parseAdminEnv :: "world \<Rightarrow> admin_env" where
  "parseAdminEnv w =
     \<lparr> username = (case getEnv w ''ADMIN_USER'' of
                      None \<Rightarrow> ''admin''
                    | Some s \<Rightarrow> if s = [] then ''admin'' else s),
       password = getEnv w ''ADMIN_PASS'',
       key = getEnv w ''ADMIN_KEY'',
       cert = getEnv w ''ADMIN_CERT'',
       ca = getEnv w ''ADMIN_CA'' \<rparr>"

text \<open>
  \<open>parseLedgers\<close> splits each entry at its first \<open>@\<close>. Without an \<open>@\<close>,
  \<open>indexOf\<close> is \<open>-1\<close>: \<open>substr(0, -1)\<close> is empty and \<open>substr(0)\<close> the whole string.
\<close>

definition splitLedger :: "string \<Rightarrow> currency_ledger" where
  "splitLedger s =
     (if CHR ''@'' \<in> set s
      then \<lparr> currency = takeWhile (\<lambda>c. c \<noteq> CHR ''@'') s,
             ledger = drop 1 (dropWhile (\<lambda>c. c \<noteq> CHR ''@'') s) \<rparr>
      else \<lparr> currency = [], ledger = s \<rparr>)"

definition parseLedgers :: "lib \<Rightarrow> world \<Rightarrow> error + currency_ledger list" where
  "parseLedgers L w =
     (case parseOr (jsonLedgers L) (getEnv w ''LEDGERS'') [] of
        Inl e \<Rightarrow> Inl e
      | Inr entries \<Rightarrow> Inr (map splitLedger entries))"

record notifications_config =
  must_verify :: bool
  keys :: obj

definition parseNotificationSignEnv :: "lib \<Rightarrow> world \<Rightarrow> error + notifications_config" where
  "parseNotificationSignEnv L w =
     (let isProduction = (process_env w ''NODE_ENV'' = Some ''production'');
          mustVerify = castBool L (getEnv w ''NOTIFICATION_VERIFY'') (Some isProduction)
      in case parseOr (jsonKeys L) (getEnv w ''NOTIFICATION_KEYS'') [] of
           Inl e \<Rightarrow> Inl FailedToParseNotificationKeys
         | Inr ks \<Rightarrow> Inr \<lparr> must_verify = mustVerify, keys = ks \<rparr>)"

section \<open>Validation (src/lib/config.js)\<close>

text \<open>\<open>v && fs.accessSync(v, fs.R_OK)\<close>: the file is only touched when \<open>v\<close> is truthy.\<close>

definition guardedAccess :: "world \<Rightarrow> jsval \<Rightarrow> string option" where
  "guardedAccess w v = (if truthy v then accessSync w v else None)"

text \<open>The three accesses of a \<open>try\<close> block, in order; the first that throws ends it.\<close>

definition accessAll :: "world \<Rightarrow> jsval \<Rightarrow> jsval \<Rightarrow> jsval \<Rightarrow> string option" where
  "accessAll w c k a =
     (case guardedAccess w c of
        Some m \<Rightarrow> Some m
      | None \<Rightarrow>
          (case guardedAccess w k of
             Some m \<Rightarrow> Some m
           | None \<Rightarrow> guardedAccess w a))"

text \<open>The callback of \<open>_.forEach(credentials, ...)\<close> in \<open>validateCredentialsEnv\<close>.\<close>

definition validateCredential :: "world \<Rightarrow> string \<Rightarrow> obj \<Rightarrow> error + unit" where
  "validateCredential w ledgerId credential =
     (if getField credential ''key'' = JUndefined \<and> getField credential ''password'' = JUndefined
      then Inl (MissingKeyOrPassword ledgerId)
      else if getField credential ''username'' = JUndefined
      then Inl (MissingUsername ledgerId)
      else if (getField credential ''cert'' = JUndefined) \<noteq> (getField credential ''key'' = JUndefined)
      then Inl (MissingCertificateOrKey ledgerId)
      else if getField credential ''account_uri'' = JUndefined
      then Inl (MissingAccountUri ledgerId)
      else (case accessAll w (getField credential ''cert'') (getField credential ''key'')
                   (getField credential ''ca'') of
              Some m \<Rightarrow> Inl (FailedToReadCredentials ledgerId m)
            | None \<Rightarrow> Inr ()))"

fun forEachCredential :: "world \<Rightarrow> (string \<times> obj) list \<Rightarrow> error + unit" where
  "forEachCredential w [] = Inr ()"
| "forEachCredential w ((ledgerId, credential) # rest) =
     (case validateCredential w ledgerId credential of
        Inl e \<Rightarrow> Inl e
      | Inr u \<Rightarrow> forEachCredential w rest)"

definition validateCredentialsEnv :: "lib \<Rightarrow> world \<Rightarrow> error + unit" where
  "validateCredentialsEnv L w =
     (case parseCredentialsEnv L w of
        Inl e \<Rightarrow> Inl e
      | Inr credentials \<Rightarrow> forEachCredential w credentials)"

definition validateAdminEnv :: "world \<Rightarrow> error + unit" where
  "validateAdminEnv w =
     (let admin = parseAdminEnv w in
      if (cert admin = None) \<noteq> (key admin = None) then Inl MissingAdminCertOrKey
      else (case accessAll w (ofEnv (cert admin)) (ofEnv (key admin)) (ofEnv (ca admin)) of
              Some m \<Rightarrow> Inl (FailedToReadAdminCredentials m)
            | None \<Rightarrow> Inr ()))"

text \<open>\<open>cc.validateCondition(notifications.keys[uri])\<close> on what the lookup found.\<close>

definition checkCondition :: "lib \<Rightarrow> property \<Rightarrow> string option" where
  "checkCondition L p =
     (case p of
        NoProperty \<Rightarrow> validateCondition L JUndefined
      | Own v \<Rightarrow> validateCondition L v
      | Inherited name \<Rightarrow> validateBuiltin L name)"

text \<open>The body of \<open>for (let ledgerObj of ledgers)\<close> in \<open>validateNotificationEnv\<close>.\<close>

fun forEachLedger :: "lib \<Rightarrow> obj \<Rightarrow> currency_ledger list \<Rightarrow> error + unit" where
  "forEachLedger L ks [] = Inr ()"
| "forEachLedger L ks (ledgerObj # rest) =
     (let uri = ledger ledgerObj in
      if isUndefined (readProperty ks uri) then Inl (MissingNotificationSigningKeys uri)
      else (case checkCondition L (readProperty ks uri) of
              Some m \<Rightarrow> Inl (FailedToReadSigningKey uri m)
            | None \<Rightarrow> forEachLedger L ks rest))"

definition validateNotificationEnv :: "lib \<Rightarrow> world \<Rightarrow> error + unit" where
  "validateNotificationEnv L w =
     (case parseNotificationSignEnv L w of
        Inl e \<Rightarrow> Inl e
      | Inr notifications \<Rightarrow>
          if must_verify notifications
          then (case parseLedgers L w of
                  Inl e \<Rightarrow> Inl e
                | Inr ledgers \<Rightarrow> forEachLedger L (keys notifications) ledgers)
          else Inr ())"

definition validateLocalEnvConfig :: "lib \<Rightarrow> world \<Rightarrow> error + unit" where
  "validateLocalEnvConfig L w =
     (case validateNotificationEnv L w of
        Inl e \<Rightarrow> Inl e
      | Inr u \<Rightarrow>
          (case validateCredentialsEnv L w of
             Inl e \<Rightarrow> Inl e
           | Inr u' \<Rightarrow> validateAdminEnv w))"

section \<open>Assembling the configuration (src/lib/config.js)\<close>

definition DEFAULT_MIN_MESSAGE_WINDOW :: number where
  "DEFAULT_MIN_MESSAGE_WINDOW = Number 1"

definition DEFAULT_MAX_HOLD_TIME :: number where
  "DEFAULT_MAX_HOLD_TIME = Number 10"

definition DEFAULT_FX_SPREAD :: number where
  "DEFAULT_FX_SPREAD = Number (2 / 1000)"

definition DEFAULT_SLIPPAGE :: number where
  "DEFAULT_SLIPPAGE = Number (1 / 1000)"

definition DEFAULT_ROUTE_BROADCAST_INTERVAL :: number where
  "DEFAULT_ROUTE_BROADCAST_INTERVAL = Number (30 * 1000)"

definition DEFAULT_ROUTE_CLEANUP_INTERVAL :: number where
  "DEFAULT_ROUTE_CLEANUP_INTERVAL = Number 1000"

definition DEFAULT_ROUTE_EXPIRY :: number where
  "DEFAULT_ROUTE_EXPIRY = Number (45 * 1000)"

definition isRunningTests :: "world \<Rightarrow> bool" where
  "isRunningTests w =
     (process_env w ''NODE_ENV'' = Some ''unit'' \<or>
      endsWith (argv0 w) ''mocha'' \<or>
      (argv_rest w \<noteq> [] \<and> endsWith (argv0 w) ''node'' \<and>
       endsWith (hd (argv_rest w)) ''mocha''))"

definition useTestConfig :: "lib \<Rightarrow> world \<Rightarrow> bool" where
  "useTestConfig L w =
     (\<not> castBool L (process_env w ''UNIT_TEST_OVERRIDE'') None \<and> isRunningTests w)"

definition generateDefaultPairs :: "lib \<Rightarrow> currency_ledger list \<Rightarrow> jsval" where
  "generateDefaultPairs L ledgers =
     JArr (map (\<lambda>pair. JArr (map (\<lambda>desc. JStr (currency desc @ ''@'' @ ledger desc)) pair))
            (getPairs L ledgers))"

text \<open>\<open>a || b\<close> and \<open>a && b\<close> on values.\<close>

definition jsOr :: "jsval \<Rightarrow> jsval \<Rightarrow> jsval" where
  "jsOr a b = (if truthy a then a else b)"

definition jsAnd :: "jsval \<Rightarrow> jsval \<Rightarrow> jsval" where
  "jsAnd a b = (if truthy a then b else a)"

text \<open>\<open>v && fs.readFileSync(v)\<close>: a falsy \<open>v\<close> is the result itself.\<close>

definition readFile :: "world \<Rightarrow> jsval \<Rightarrow> error + jsval" where
  "readFile w v = (case readFileSync w v of Inl m \<Rightarrow> Inl (FsError m) | Inr b \<Rightarrow> Inr (JBuffer b))"

definition guardedRead :: "world \<Rightarrow> jsval \<Rightarrow> error + jsval" where
  "guardedRead w v = (if truthy v then readFile w v else Inr v)"

text \<open>\<open>_.assign(o, src)\<close>: each property of \<open>src\<close> is written to \<open>o\<close>, in order.\<close>

definition assign :: "obj \<Rightarrow> obj \<Rightarrow> obj" where
  "assign ob src = foldl (\<lambda>acc kv. AList.update (fst kv) (snd kv) acc) ob src"

text \<open>The callback of \<open>_.mapValues(credentialsEnv, ...)\<close> in \<open>parseCredentials\<close>.\<close>

definition resolveCredential :: "world \<Rightarrow> obj \<Rightarrow> error + obj" where
  "resolveCredential w credentials =
     (let isClientCertCredential = (getField credentials ''key'' \<noteq> JUndefined) in
      if isClientCertCredential
      then (case readFile w (getField credentials ''key'') of
              Inl e \<Rightarrow> Inl e
            | Inr k \<Rightarrow>
                (case readFile w (getField credentials ''cert'') of
                   Inl e \<Rightarrow> Inl e
                 | Inr c \<Rightarrow>
                     (case guardedRead w (getField credentials ''ca'') of
                        Inl e \<Rightarrow> Inl e
                      | Inr a \<Rightarrow>
                          Inr (omitUndefined
                                (assign credentials
                                   [(''key'', k), (''cert'', c), (''ca'', a)])))))
      else (case guardedRead w (getField credentials ''ca'') of
              Inl e \<Rightarrow> Inl e
            | Inr a \<Rightarrow> Inr (omitUndefined (assign credentials [(''ca'', a)]))))"

fun mapValues :: "world \<Rightarrow> (string \<times> obj) list \<Rightarrow> error + (string \<times> obj) list" where
  "mapValues w [] = Inr []"
| "mapValues w ((ledgerId, credentials) # rest) =
     (case resolveCredential w credentials of
        Inl e \<Rightarrow> Inl e
      | Inr c \<Rightarrow>
          (case mapValues w rest of
             Inl e \<Rightarrow> Inl e
           | Inr cs \<Rightarrow> Inr ((ledgerId, c) # cs)))"

definition parseCredentials :: "lib \<Rightarrow> world \<Rightarrow> error + (string \<times> obj) list" where
  "parseCredentials L w =
     (case parseCredentialsEnv L w of
        Inl e \<Rightarrow> Inl e
      | Inr credentialsEnv \<Rightarrow> mapValues w credentialsEnv)"

text \<open>Unary \<open>+v\<close> and \<open>Number(v)\<close> on a variable: \<open>undefined\<close> converts to \<open>NaN\<close>.\<close>

definition unaryPlus :: "lib \<Rightarrow> string option \<Rightarrow> number" where
  "unaryPlus L v = (case v of None \<Rightarrow> NaN | Some s \<Rightarrow> toNumber L s)"

text \<open>\<open>n || d\<close> on numbers.\<close>

definition numberOr :: "number \<Rightarrow> number \<Rightarrow> number" where
  "numberOr n d = (if truthyNumber n then n else d)"

text \<open>\<open>s ? +s : d\<close> on a variable: only an unset or empty string takes the default.\<close>

definition numberIfSet :: "lib \<Rightarrow> string option \<Rightarrow> number \<Rightarrow> number" where
  "numberIfSet L v d = (if truthy (ofEnv v) then unaryPlus L v else d)"

text \<open>
  \<open>tradingPairs.length\<close>: the length of an array, a string or a buffer, the property of
  that name of an object, \<open>undefined\<close> on a boolean or a number.
\<close>

definition lengthOf :: "jsval \<Rightarrow> error + jsval" where
  "lengthOf v =
     (case v of
        JUndefined \<Rightarrow> Inl (TypeError ''Cannot read property length of undefined'')
      | JNull \<Rightarrow> Inl (TypeError ''Cannot read property length of null'')
      | JBool b \<Rightarrow> Inr JUndefined
      | JNum n \<Rightarrow> Inr JUndefined
      | JStr s \<Rightarrow> Inr (JNum (Number (of_nat (length s))))
      | JBuffer b \<Rightarrow> Inr (JNum (Number (of_nat (length b))))
      | JArr xs \<Rightarrow> Inr (JNum (Number (of_nat (length xs))))
      | JObj kvs \<Rightarrow> Inr (getField kvs ''length''))"

record expiry_config =
  minMessageWindow :: number
  maxHoldTime :: number

record features_config =
  debugAutoFund :: bool
  debugReplyNotifications :: bool

record server_config =
  base_uri :: "string option"

record config =
  backend :: string
  ledgerCredentials :: "(string \<times> obj) list"
  fxSpread :: number
  slippage :: number
  expiry :: expiry_config
  features :: features_config
  admin :: "obj option"
  tradingPairs :: jsval
  server :: server_config
  backendUri :: "string option"
  notifications :: notifications_config
  routeBroadcastInterval :: number
  routeCleanupInterval :: number
  routeExpiry :: number

text \<open>
  \<open>useAdmin ? _.omitBy({...}, _.isUndefined) : undefined\<close>, the files read in the order
  of the object literal.
\<close>

definition resolveAdmin :: "world \<Rightarrow> admin_env \<Rightarrow> jsval \<Rightarrow> error + obj option" where
  "resolveAdmin w adminEnv useAdmin =
     (if truthy useAdmin
      then (case guardedRead w (ofEnv (key adminEnv)) of
              Inl e \<Rightarrow> Inl e
            | Inr k \<Rightarrow>
                (case guardedRead w (ofEnv (cert adminEnv)) of
                   Inl e \<Rightarrow> Inl e
                 | Inr c \<Rightarrow>
                     (case guardedRead w (ofEnv (ca adminEnv)) of
                        Inl e \<Rightarrow> Inl e
                      | Inr a \<Rightarrow>
                          Inr (Some (omitUndefined
                                 [(''username'', JStr (username adminEnv)),
                                  (''password'', ofEnv (password adminEnv)),
                                  (''key'', k), (''cert'', c), (''ca'', a)])))))
      else Inr None)"

text \<open>
  The branch \<open>if (useTestConfig()) ... else ...\<close>: the server settings, the ledger
  credentials, the trading pairs and the reply-notifications flag it leaves behind.
\<close>

definition testOrLocal ::
  "lib \<Rightarrow> world \<Rightarrow> jsval \<Rightarrow> bool \<Rightarrow>
   error + (server_config \<times> (string \<times> obj) list \<times> jsval \<times> bool)" where
  "testOrLocal L w tradingPairs0 debugReplyNotifications0 =
     (if useTestConfig L w
      then (case lengthOf tradingPairs0 of
              Inl e \<Rightarrow> Inl e
            | Inr n \<Rightarrow>
                Inr (\<lparr> base_uri = Some ''http://localhost'' \<rparr>,
                     testLedgerCredentials w,
                     (if \<not> truthy n then testTradingPairs w else tradingPairs0),
                     True))
      else (case parseCredentials L w of
              Inl e \<Rightarrow> Inl e
            | Inr creds \<Rightarrow>
                Inr (\<lparr> base_uri = None \<rparr>, creds, tradingPairs0, debugReplyNotifications0)))"

definition getLocalConfig :: "lib \<Rightarrow> world \<Rightarrow> error + config" where
  "getLocalConfig L w =
     (case validateLocalEnvConfig L w of
        Inl e \<Rightarrow> Inl e
      | Inr u \<Rightarrow>
     (case parseLedgers L w of
        Inl e \<Rightarrow> Inl e
      | Inr ledgers \<Rightarrow>
     (case parseOr (jsonPairs L) (getEnv w ''PAIRS'') (JBool False) of
        Inl e \<Rightarrow> Inl e
      | Inr pairsEnv \<Rightarrow>
     (let tradingPairs0 =
            (if truthy pairsEnv then pairsEnv else generateDefaultPairs L ledgers);
          autoFund = castBool L (getEnv w ''DEBUG_AUTOFUND'') None;
          replyNotifications0 = castBool L (getEnv w ''DEBUG_REPLY_NOTIFICATIONS'') None;
          adminEnv = parseAdminEnv w;
          useAdmin = jsAnd (JStr (username adminEnv))
                       (jsOr (ofEnv (password adminEnv)) (ofEnv (key adminEnv)))
      in
      if autoFund \<and> \<not> truthy useAdmin then Inl DebugAutofundRequiresAdmin
      else
     (case resolveAdmin w adminEnv useAdmin of
        Inl e \<Rightarrow> Inl e
      | Inr adminObj \<Rightarrow>
     (case testOrLocal L w tradingPairs0 replyNotifications0 of
        Inl e \<Rightarrow> Inl e
      | Inr (serverCfg, creds, pairs, replyNotifications) \<Rightarrow>
     (case parseNotificationSignEnv L w of
        Inl e \<Rightarrow> Inl e
      | Inr notificationsCfg \<Rightarrow>
          Inr \<lparr> backend = (case getEnv w ''BACKEND'' of
                             None \<Rightarrow> ''fixerio''
                           | Some s \<Rightarrow> if s = [] then ''fixerio'' else s),
                ledgerCredentials = creds,
                fxSpread = numberIfSet L (getEnv w ''FX_SPREAD'') DEFAULT_FX_SPREAD,
                slippage = numberIfSet L (getEnv w ''SLIPPAGE'') DEFAULT_SLIPPAGE,
                expiry =
                  \<lparr> minMessageWindow =
                      numberOr (unaryPlus L (getEnv w ''MIN_MESSAGE_WINDOW''))
                        DEFAULT_MIN_MESSAGE_WINDOW,
                    maxHoldTime =
                      numberOr (unaryPlus L (getEnv w ''MAX_HOLD_TIME''))
                        DEFAULT_MAX_HOLD_TIME \<rparr>,
                features =
                  \<lparr> debugAutoFund = autoFund,
                    debugReplyNotifications = replyNotifications \<rparr>,
                admin = adminObj,
                tradingPairs = pairs,
                server = serverCfg,
                backendUri = getEnv w ''BACKEND_URI'',
                notifications = notificationsCfg,
                routeBroadcastInterval =
                  numberOr (unaryPlus L (getEnv w ''ROUTE_BROADCAST_INTERVAL''))
                    DEFAULT_ROUTE_BROADCAST_INTERVAL,
                routeCleanupInterval =
                  numberOr (unaryPlus L (getEnv w ''ROUTE_CLEANUP_INTERVAL''))
                    DEFAULT_ROUTE_CLEANUP_INTERVAL,
                routeExpiry =
                  numberOr (unaryPlus L (getEnv w ''ROUTE_EXPIRY''))
                    DEFAULT_ROUTE_EXPIRY \<rparr>)))))))"

section \<open>The ledger registry (src/lib/multiledger.js)\<close>

text \<open>
  The configuration the registry is given is the object \<open>Config.loadConfig\<close> of
  five-bells-shared makes of the local configuration. The registry writes to the
  credential objects that configuration holds, under \<open>'use strict'\<close>: whether the
  library has frozen the object it hands over (\<open>Object.freeze\<close>, the credential objects
  included) decides whether these writes go through, and is recorded with the
  configuration.
\<close>

record connector_config = config +
  frozen :: bool

definition loadConnectorConfig ::
  "(config \<Rightarrow> error + connector_config) \<Rightarrow> lib \<Rightarrow> world \<Rightarrow> error + connector_config" where
  "loadConnectorConfig loadConfig L w =
     (case getLocalConfig L w of Inl e \<Rightarrow> Inl e | Inr localConfig \<Rightarrow> loadConfig localConfig)"

text \<open>
  A plugin module exports a class with a static \<open>TYPE\<close>. \<open>require(name)\<close> finds the
  module among the installed ones or throws.
\<close>

record plugin_class =
  moduleName :: string
  TYPE_static :: string

type_synonym modules = "string \<rightharpoonup> plugin_class"

definition require :: "modules \<Rightarrow> string \<Rightarrow> error + plugin_class" where
  "require ms name = (case ms name of None \<Rightarrow> Inl (CannotFindModule name) | Some c \<Rightarrow> Inr c)"

record autofund =
  autofund_admin :: "obj option"
  autofund_connector :: "string option"

text \<open>The options object handed to \<open>new LedgerPlugin({...})\<close>.\<close>

record plugin_options =
  id_opt :: string
  auth :: obj
  debugReplyNotifications_opt :: bool
  debugAutofund_opt :: "autofund option"
  log_opt :: string

text \<open>
  A ledger handle: the class it was constructed from and the options it was given. What
  the constructor does with the options is the plugin's own business.
\<close>

record ledger_plugin =
  constructor_class :: plugin_class
  options :: plugin_options

text \<open>
  Modelled from the spec: \<open>src/common/health.js\<close> is not among the sources; the spec's
  health status is one of an enumerated set including "not ok" (initial) and "ok".
\<close>

datatype health_status = statusOk | statusNotOk

text \<open>
  The registry: the configuration object it was given, the own properties of
  \<open>this.ledgers\<close> and the health flag.
\<close>

record multiledger =
  config_of :: connector_config
  ledgers :: "(string \<times> ledger_plugin) list"
  ledgersHealth :: health_status

text \<open>
  Writes under \<open>'use strict'\<close>. An assignment to a property of a frozen object throws
  a \<open>TypeError\<close>, whether the property exists or not; so does the \<open>delete\<close> of a
  property a frozen object has. On an object that is not frozen an assignment changes the
  property where it stands or adds it after the others. The text of such a \<open>TypeError\<close>
  is the runtime's own; the text here stands for it and names the property and the kind of
  write.
\<close>

definition assignProperty :: "bool \<Rightarrow> string \<Rightarrow> jsval \<Rightarrow> obj \<Rightarrow> error + obj" where
  "assignProperty isFrozen k v ob =
     (if isFrozen then Inl (TypeError (''Cannot assign to property '' @ k @ '' of a frozen object''))
      else Inr (AList.update k v ob))"

definition deleteProperty :: "bool \<Rightarrow> string \<Rightarrow> obj \<Rightarrow> error + obj" where
  "deleteProperty isFrozen k ob =
     (if isFrozen \<and> map_of ob k \<noteq> None
      then Inl (TypeError (''Cannot delete property '' @ k @ '' of a frozen object''))
      else Inr (AList.delete k ob))"

text \<open>
  The string \<open>creds.type\<close> becomes in \<open>'ilp-plugin-' + creds.type\<close>: a string is
  itself, any other value is converted by the runtime.
\<close>

definition typeString :: "lib \<Rightarrow> jsval \<Rightarrow> error + string" where
  "typeString L v = (case v of JStr s \<Rightarrow> Inr s | _ \<Rightarrow> stringOfValue L v)"

definition deprecationWarning :: string where
  "deprecationWarning =
     ''DEPRECATED: The key `account_uri` in ledger credentials has been renamed `account`''"

text \<open>
  The first statements of the callback in \<open>buildLedgers\<close>, on a credential object that
  is frozen or not: the migration of \<open>account_uri\<close>, with the warnings logged so far (the
  warning is logged before the first write), and the default of \<open>type\<close>.
\<close>

definition migrateAccountUri :: "bool \<Rightarrow> string list \<Rightarrow> obj \<Rightarrow> string list \<times> (error + obj)" where
  "migrateAccountUri isFrozen lg creds =
     (if truthy (getField creds ''account_uri'')
      then (lg @ [deprecationWarning],
            case assignProperty isFrozen ''account'' (getField creds ''account_uri'') creds of
              Inl e \<Rightarrow> Inl e
            | Inr creds' \<Rightarrow> deleteProperty isFrozen ''account_uri'' creds')
      else (lg, Inr creds))"

definition defaultType :: "bool \<Rightarrow> obj \<Rightarrow> error + obj" where
  "defaultType isFrozen creds =
     assignProperty isFrozen ''type'' (jsOr (getField creds ''type'') (JStr ''bells'')) creds"

text \<open>The options object of \<open>new LedgerPlugin({...})\<close> for one ledger id.\<close>

definition pluginOptions ::
  "connector_config \<Rightarrow> string \<Rightarrow> obj \<Rightarrow> string \<Rightarrow> plugin_options" where
  "pluginOptions cfg ledgerId creds typeName =
     \<lparr> id_opt = ledgerId,
       auth = creds,
       debugReplyNotifications_opt = debugReplyNotifications (features cfg),
       debugAutofund_opt =
         (if debugAutoFund (features cfg)
          then Some \<lparr> autofund_admin = admin cfg, autofund_connector = base_uri (server cfg) \<rparr>
          else None),
       log_opt = ''plugin-'' @ typeName \<rparr>"

text \<open>
  What a run of \<open>buildLedgers\<close> has done so far: the warnings it logged, the
  configuration object as its writes have left it, the own properties of \<open>ledgers\<close>, and
  the handles \<open>new LedgerPlugin\<close> has returned, in the order of their construction.
\<close>

record build_state =
  logged :: "string list"
  config_now :: connector_config
  registry :: "(string \<times> ledger_plugin) list"
  constructed :: "ledger_plugin list"

text \<open>
  The credential object is changed in place: the configuration holds the changed object.
\<close>

definition setCredential :: "string \<Rightarrow> obj \<Rightarrow> connector_config \<Rightarrow> connector_config" where
  "setCredential ledgerId creds cfg =
     cfg\<lparr> ledgerCredentials := AList.update ledgerId creds (ledgerCredentials cfg) \<rparr>"

text \<open>
  \<open>ledgers[ledgerId] = handle\<close> on the plain object \<open>ledgers\<close>: an own property, except
  under the name \<open>__proto__\<close>, where the assignment replaces the prototype of \<open>ledgers\<close>
  and adds no property. The list keeps the properties in the order of their creation; a
  name that is a number is enumerated by the runtime before the others.
\<close>

definition setLedger ::
  "string \<Rightarrow> ledger_plugin \<Rightarrow> (string \<times> ledger_plugin) list \<Rightarrow> (string \<times> ledger_plugin) list" where
  "setLedger ledgerId h reg = (if ledgerId = ''__proto__'' then reg else AList.update ledgerId h reg)"

text \<open>
  The callback of \<open>Object.keys(...).forEach\<close> for one ledger id: the error it throws, if
  any, and what has been done when it returns or throws. A warning stays logged and a
  write stays written when a later statement throws.
\<close>

definition buildLedger :: "modules \<Rightarrow> lib \<Rightarrow> string \<Rightarrow> build_state \<Rightarrow> error option \<times> build_state" where
  "buildLedger ms L ledgerId st =
     (let cfg = config_now st in
      case map_of (ledgerCredentials cfg) ledgerId of
        None \<Rightarrow> (Some (TypeError ''Cannot read property account_uri of undefined''), st)
      | Some creds0 \<Rightarrow>
          (case migrateAccountUri (frozen cfg) (logged st) creds0 of
             (lg, Inl e) \<Rightarrow> (Some e, st\<lparr> logged := lg \<rparr>)
           | (lg, Inr creds1) \<Rightarrow>
               (case defaultType (frozen cfg) creds1 of
                  Inl e \<Rightarrow>
                    (Some e,
                     st\<lparr> logged := lg, config_now := setCredential ledgerId creds1 cfg \<rparr>)
                | Inr creds \<Rightarrow>
                    (let st1 = st\<lparr> logged := lg,
                                   config_now := setCredential ledgerId creds cfg \<rparr>
                     in case typeString L (getField creds ''type'') of
                          Inl e \<Rightarrow> (Some e, st1)
                        | Inr typeName \<Rightarrow>
                            (case require ms (''ilp-plugin-'' @ typeName) of
                               Inl e \<Rightarrow> (Some e, st1)
                             | Inr LedgerPlugin \<Rightarrow>
                                 (let h = \<lparr> constructor_class = LedgerPlugin,
                                            options = pluginOptions (config_now st1) ledgerId
                                                        creds typeName \<rparr>
                                  in (None,
                                      st1\<lparr> registry := setLedger ledgerId h (registry st1),
                                           constructed := constructed st1 @ [h] \<rparr>)))))))"

fun forEachLedgerId ::
  "modules \<Rightarrow> lib \<Rightarrow> string list \<Rightarrow> build_state \<Rightarrow> error option \<times> build_state" where
  "forEachLedgerId ms L [] st = (None, st)"
| "forEachLedgerId ms L (ledgerId # rest) st =
     (case buildLedger ms L ledgerId st of
        (Some e, st') \<Rightarrow> (Some e, st')
      | (None, st') \<Rightarrow> forEachLedgerId ms L rest st')"

text \<open>\<open>buildLedgers\<close>: the ledger ids are the keys the configuration has when it starts.\<close>

definition buildLedgers :: "modules \<Rightarrow> lib \<Rightarrow> connector_config \<Rightarrow> error option \<times> build_state" where
  "buildLedgers ms L cfg =
     forEachLedgerId ms L (map fst (ledgerCredentials cfg))
       \<lparr> logged = [], config_now = cfg, registry = [], constructed = [] \<rparr>"

text \<open>
  The constructor: the warnings it logged, and the registry or the error it threw. The
  registry holds the configuration object as the build has left it; after a throw that
  object is the \<open>config_now\<close> of \<open>buildLedgers\<close>.
\<close>

definition Multiledger ::
  "modules \<Rightarrow> lib \<Rightarrow> connector_config \<Rightarrow> string list \<times> (error + multiledger)" where
  "Multiledger ms L cfg =
     (case buildLedgers ms L cfg of
        (Some e, st) \<Rightarrow> (logged st, Inl e)
      | (None, st) \<Rightarrow>
          (logged st,
           Inr \<lparr> config_of = config_now st, ledgers = registry st,
                 ledgersHealth = statusNotOk \<rparr>))"

text \<open>
  \<open>getStatus\<close> polls every handle. What a plugin answers to \<open>isConnected()\<close> is the
  plugin's own business and is a parameter; the registry after the call is returned with
  the answer.
\<close>

definition getStatus :: "(ledger_plugin \<Rightarrow> bool) \<Rightarrow> multiledger \<Rightarrow> bool \<times> multiledger" where
  "getStatus isConnected m = (list_all (\<lambda>h. isConnected h) (map snd (ledgers m)), m)"

section \<open>Sample data\<close>

text \<open>
  Concrete libraries and processes on which the theorems below are instantiated. The
  texts of the environment are JSON; \<open>quoted\<close> puts a string between double quotes.
\<close>

definition quoted :: "string \<Rightarrow> string" where
  "quoted s = [CHR 0x22] @ s @ [CHR 0x22]"

text \<open>
  Modelled from the spec: \<open>Utils.getPairs\<close> of \<open>src/lib/utils\<close> is not among the
  sources; the generated pairs are the full combinatorial set over the configured
  ledgers, each pair once and no ledger paired with itself.
\<close>

fun allPairs :: "'a list \<Rightarrow> 'a list list" where
  "allPairs [] = []"
| "allPairs (x # xs) = map (\<lambda>y. [x, y]) xs @ allPairs xs"

definition usdLedger :: string where
  "usdLedger = ''http://usd-ledger.example''"

definition eurLedger :: string where
  "eurLedger = ''http://eur-ledger.example''"

definition sampleLedgersText :: string where
  "sampleLedgersText =
     ''['' @ quoted (''USD@'' @ usdLedger) @ '','' @ quoted (''EUR@'' @ eurLedger) @ '']''"

definition sampleLedgers :: "string list" where
  "sampleLedgers = [''USD@'' @ usdLedger, ''EUR@'' @ eurLedger]"

text \<open>The text of a \<open>LEDGERS\<close> variable with one ledger whose URI is \<open>constructor\<close>.\<close>

definition constructorLedgerText :: string where
  "constructorLedgerText = ''['' @ quoted ''USD@constructor'' @ '']''"

text \<open>\<open>{"http://usd-ledger.example":{}}\<close>: a credential with no field at all.\<close>

definition emptyCredentialText :: string where
  "emptyCredentialText = ''{'' @ quoted usdLedger @ '':{}}''"

text \<open>A credential with everything validation asks for, and no file to read.\<close>

definition completeCredential :: obj where
  "completeCredential =
     [(''account_uri'', JStr (usdLedger @ ''/accounts/mark'')),
      (''username'', JStr ''mark''),
      (''password'', JStr ''mark'')]"

text \<open>
  The text of a \<open>CREDENTIALS\<close> variable with two ledgers: the complete credential for
  the first, and for the second a credential that has a password and no username.
\<close>

definition twoCredentialsText :: string where
  "twoCredentialsText =
     ''{'' @ quoted usdLedger @ '':{'' @
       quoted ''account_uri'' @ '':'' @ quoted (usdLedger @ ''/accounts/mark'') @ '','' @
       quoted ''username'' @ '':'' @ quoted ''mark'' @ '','' @
       quoted ''password'' @ '':'' @ quoted ''mark'' @ ''},'' @
     quoted eurLedger @ '':{'' @ quoted ''password'' @ '':'' @ quoted ''mark'' @ ''}}''"

definition twoCredentials :: "(string \<times> obj) list" where
  "twoCredentials =
     [(usdLedger, completeCredential), (eurLedger, [(''password'', JStr ''mark'')])]"

definition sampleCondition :: string where
  "sampleCondition = ''cc:0:3:47DEQpj8HBSa-_TImW-5JCeuQeRkm5NMpJWZG3hSuFU:0''"

text \<open>The text of a \<open>NOTIFICATION_KEYS\<close> variable with a key for the first ledger only.\<close>

definition usdKeyText :: string where
  "usdKeyText = ''{'' @ quoted usdLedger @ '':'' @ quoted sampleCondition @ ''}''"

text \<open>
  A library for the samples: the decoders know the sample texts and reject every other
  text, the number conversion knows two numerals, \<open>castBool\<close> takes \<open>true\<close> and \<open>1\<close>
  for true and the default for an unset variable, a condition is valid when it is a
  string starting with \<open>cc:\<close>, no member of \<open>Object.prototype\<close> is a valid
  condition, and the conversion to a string knows \<open>undefined\<close>, \<open>null\<close> and the
  booleans and has every other value throw.
\<close>

definition sampleLib :: lib where
  "sampleLib =
     \<lparr> jsonCredentials =
         (\<lambda>s. if s = emptyCredentialText then Some [(usdLedger, [])]
              else if s = twoCredentialsText then Some twoCredentials
              else None),
       jsonLedgers =
         (\<lambda>s. if s = sampleLedgersText then Some sampleLedgers
              else if s = constructorLedgerText then Some [''USD@constructor'']
              else None),
       jsonKeys =
         (\<lambda>s. if s = usdKeyText then Some [(usdLedger, JStr sampleCondition)] else None),
       jsonPairs = (\<lambda>s. if s = ''[]'' then Some (JArr []) else None),
       toNumber = (\<lambda>s. if s = ''5'' then Number 5 else if s = ''0'' then Number 0 else NaN),
       castBool =
         (\<lambda>v d. case v of
                  None \<Rightarrow> (case d of None \<Rightarrow> False | Some b \<Rightarrow> b)
                | Some s \<Rightarrow> s = ''true'' \<or> s = ''1''),
       validateCondition =
         (\<lambda>v. case v of
                JStr s \<Rightarrow> if take 3 s = ''cc:'' then None else Some ''Invalid condition format''
              | _ \<Rightarrow> Some ''Invalid condition format''),
       validateBuiltin = (\<lambda>name. Some ''Invalid condition format''),
       getPairs = allPairs,
       stringOfValue =
         (\<lambda>v. case v of
                JUndefined \<Rightarrow> Inr ''undefined''
              | JNull \<Rightarrow> Inr ''null''
              | JBool b \<Rightarrow> Inr (if b then ''true'' else ''false'')
              | _ \<Rightarrow> Inl (TypeError ''Cannot convert object to primitive value'')) \<rparr>"

text \<open>
  A process started as \<open>node app.js\<close> with the given environment, on a file system where
  exactly the listed paths are readable, each file holding its own path as content.
\<close>

definition sampleWorld :: "(string \<times> string) list \<Rightarrow> string list \<Rightarrow> world" where
  "sampleWorld vars files =
     \<lparr> process_env = map_of vars,
       argv0 = ''/usr/bin/node'',
       argv_rest = [''app.js''],
       accessSync =
         (\<lambda>v. case v of
                JStr f \<Rightarrow> if f \<in> set files then None else Some ''ENOENT''
              | _ \<Rightarrow> Some ''path must be a string''),
       readFileSync =
         (\<lambda>v. case v of
                JStr f \<Rightarrow> if f \<in> set files then Inr f else Inl ''ENOENT''
              | _ \<Rightarrow> Inl ''path must be a string''),
       testLedgerCredentials = [],
       testTradingPairs = JArr [] \<rparr>"

text \<open>
  A process in which all three validation passes find something: verification is on and
  the one ledger has no signing key, its credential is empty, and the admin certificate
  comes without a key.
\<close>

definition allInvalidWorld :: world where
  "allInvalidWorld =
     sampleWorld
       [(''CONNECTOR_NOTIFICATION_VERIFY'', ''true''),
        (''CONNECTOR_LEDGERS'', sampleLedgersText),
        (''CONNECTOR_CREDENTIALS'', emptyCredentialText),
        (''CONNECTOR_ADMIN_CERT'', ''/etc/admin.crt'')]
       []"

definition sampleClass :: plugin_class where
  "sampleClass = \<lparr> moduleName = ''ilp-plugin-bells'', TYPE_static = ''bells'' \<rparr>"

definition sampleOptions :: "string \<Rightarrow> plugin_options" where
  "sampleOptions ledgerId =
     \<lparr> id_opt = ledgerId, auth = [], debugReplyNotifications_opt = False,
       debugAutofund_opt = None, log_opt = ''plugin-bells'' \<rparr>"

definition sampleConfig :: "(string \<times> obj) list \<Rightarrow> config" where
  "sampleConfig creds =
     \<lparr> backend = ''fixerio'',
       ledgerCredentials = creds,
       fxSpread = DEFAULT_FX_SPREAD,
       slippage = DEFAULT_SLIPPAGE,
       expiry = \<lparr> minMessageWindow = DEFAULT_MIN_MESSAGE_WINDOW,
                  maxHoldTime = DEFAULT_MAX_HOLD_TIME \<rparr>,
       features = \<lparr> debugAutoFund = False, debugReplyNotifications = False \<rparr>,
       admin = None,
       tradingPairs = JArr [],
       server = \<lparr> base_uri = None \<rparr>,
       backendUri = None,
       notifications = \<lparr> must_verify = False, keys = [] \<rparr>,
       routeBroadcastInterval = DEFAULT_ROUTE_BROADCAST_INTERVAL,
       routeCleanupInterval = DEFAULT_ROUTE_CLEANUP_INTERVAL,
       routeExpiry = DEFAULT_ROUTE_EXPIRY \<rparr>"

text \<open>The local configuration as the library hands it over, frozen or not.\<close>

definition handedOver :: "bool \<Rightarrow> config \<Rightarrow> connector_config" where
  "handedOver isFrozen c = config.extend c (connector_config.fields isFrozen)"

text \<open>A registry of two handles, for the ledgers \<open>usdLedger\<close> and \<open>eurLedger\<close>.\<close>

definition sampleRegistry :: multiledger where
  "sampleRegistry =
     \<lparr> config_of = handedOver False (sampleConfig []),
       ledgers =
         [(usdLedger, \<lparr> constructor_class = sampleClass, options = sampleOptions usdLedger \<rparr>),
          (eurLedger, \<lparr> constructor_class = sampleClass, options = sampleOptions eurLedger \<rparr>)],
       ledgersHealth = statusNotOk \<rparr>"





text \<open>Two ledgers and an explicit empty list of pairs.\<close>

definition emptyPairsWorld :: world where
  "emptyPairsWorld =
     sampleWorld
       [(''CONNECTOR_PAIRS'', ''[]''), (''CONNECTOR_LEDGERS'', sampleLedgersText)]
       []"

text \<open>Two ledgers and no \<open>PAIRS\<close> variable.\<close>

definition ledgersOnlyWorld :: world where
  "ledgersOnlyWorld = sampleWorld [(''CONNECTOR_LEDGERS'', sampleLedgersText)] []"

definition usdDesc :: currency_ledger where
  "usdDesc = \<lparr> currency = ''USD'', ledger = usdLedger \<rparr>"

definition eurDesc :: currency_ledger where
  "eurDesc = \<lparr> currency = ''EUR'', ledger = eurLedger \<rparr>"

text \<open>Numeric overrides that are not numbers, for five of the seven knobs.\<close>

definition unparsableKnobsWorld :: world where
  "unparsableKnobsWorld =
     sampleWorld
       [(''CONNECTOR_FX_SPREAD'', ''abc''),
        (''CONNECTOR_MIN_MESSAGE_WINDOW'', ''abc''),
        (''CONNECTOR_ROUTE_BROADCAST_INTERVAL'', ''abc''),
        (''CONNECTOR_ROUTE_CLEANUP_INTERVAL'', ''abc''),
        (''CONNECTOR_ROUTE_EXPIRY'', ''abc'')]
       []"

text \<open>Two processes that differ in a variable the connector does not read.\<close>

definition homeWorld :: "string \<Rightarrow> world" where
  "homeWorld home =
     sampleWorld [(''HOME'', home), (''CONNECTOR_BACKEND'', ''one-to-one'')] []"

definition sampleModules :: modules where
  "sampleModules = [''ilp-plugin-bells'' \<mapsto> sampleClass]"

text \<open>
  Configurations with one credential: the complete one, which has the legacy
  \<open>account_uri\<close>; the same with a type no plugin is installed for; and one whose
  \<open>account_uri\<close> is the empty string.
\<close>

definition legacyConfig :: "bool \<Rightarrow> connector_config" where
  "legacyConfig isFrozen = handedOver isFrozen (sampleConfig [(usdLedger, completeCredential)])"

definition unknownTypeConfig :: "bool \<Rightarrow> connector_config" where
  "unknownTypeConfig isFrozen =
     handedOver isFrozen
       (sampleConfig [(usdLedger, completeCredential @ [(''type'', JStr ''nope'')])])"

definition emptyAccountUriCredential :: obj where
  "emptyAccountUriCredential =
     [(''account_uri'', JStr []), (''username'', JStr ''mark''), (''password'', JStr ''mark'')]"

definition emptyAccountUriConfig :: connector_config where
  "emptyAccountUriConfig =
     handedOver False (sampleConfig [(usdLedger, emptyAccountUriCredential)])"


section \<open>Notions used in the statements\<close>



text \<open>A numeric override is absent, or it is a text that converts to \<open>NaN\<close>.\<close>

definition absentOrUnparsable :: "lib \<Rightarrow> string option \<Rightarrow> bool" where
  "absentOrUnparsable L v = (case v of None \<Rightarrow> True | Some s \<Rightarrow> toNumber L s = NaN)"

text \<open>
  The credential as \<open>buildLedgers\<close> leaves it when its writes go through, the module
  its plugin is loaded from, and whether that module is installed.
\<close>

definition migrated :: "obj \<Rightarrow> obj" where
  "migrated creds =
     AList.update ''type'' (jsOr (getField creds ''type'') (JStr ''bells''))
       (if truthy (getField creds ''account_uri'')
        then AList.delete ''account_uri''
               (AList.update ''account'' (getField creds ''account_uri'') creds)
        else creds)"

definition pluginType :: "lib \<Rightarrow> obj \<Rightarrow> error + string" where
  "pluginType L creds = typeString L (jsOr (getField creds ''type'') (JStr ''bells''))"

definition pluginLoads :: "modules \<Rightarrow> lib \<Rightarrow> obj \<Rightarrow> bool" where
  "pluginLoads ms L creds =
     (case pluginType L creds of
        Inl e \<Rightarrow> False
      | Inr typeName \<Rightarrow> ms (''ilp-plugin-'' @ typeName) \<noteq> None)"

text \<open>
  What a run of the loop over the ledger ids \<open>ks\<close> that throws nothing has done between
  the states \<open>st\<close> and \<open>st'\<close>: the configuration is frozen or not as before; what was
  logged and constructed still is; for every ledger id of \<open>ks\<close> the configuration now
  holds the migrated credential, the warning is logged if the credential had a truthy
  \<open>account_uri\<close>, and a handle has been constructed with the migrated credential, which
  is the registry's entry for the ledger id unless the id is \<open>__proto__\<close>; the other
  ledger ids are as they were.
\<close>

definition buildsAll :: "build_state \<Rightarrow> string list \<Rightarrow> build_state \<Rightarrow> bool" where
  "buildsAll st ks st' =
     (frozen (config_now st') = frozen (config_now st) \<and>
      set (logged st) \<subseteq> set (logged st') \<and>
      set (constructed st) \<subseteq> set (constructed st') \<and>
      (\<forall>k c. k \<in> set ks \<and> map_of (ledgerCredentials (config_now st)) k = Some c \<longrightarrow>
         map_of (ledgerCredentials (config_now st')) k = Some (migrated c) \<and>
         (truthy (getField c ''account_uri'') \<longrightarrow> deprecationWarning \<in> set (logged st')) \<and>
         (\<exists>h \<in> set (constructed st').
            id_opt (options h) = k \<and> auth (options h) = migrated c \<and>
            (k \<noteq> ''__proto__'' \<longrightarrow> map_of (registry st') k = Some h))) \<and>
      (\<forall>k. k \<notin> set ks \<longrightarrow>
         map_of (ledgerCredentials (config_now st')) k =
           map_of (ledgerCredentials (config_now st)) k \<and>
         map_of (registry st') k = map_of (registry st) k))"

text \<open>
  What the assembly reads of a process: sixteen variables that decide whether it succeeds
  and everything but the numbers of its result, seven variables of numeric knobs, the
  command line, the file system and the fixtures.
\<close>

definition coreVariables :: "string list" where
  "coreVariables =
     [''NODE_ENV'', ''UNIT_TEST_OVERRIDE'',
      ''CONNECTOR_CREDENTIALS'', ''CONNECTOR_ADMIN_USER'', ''CONNECTOR_ADMIN_PASS'',
      ''CONNECTOR_ADMIN_KEY'', ''CONNECTOR_ADMIN_CERT'', ''CONNECTOR_ADMIN_CA'',
      ''CONNECTOR_LEDGERS'', ''CONNECTOR_PAIRS'', ''CONNECTOR_NOTIFICATION_VERIFY'',
      ''CONNECTOR_NOTIFICATION_KEYS'', ''CONNECTOR_DEBUG_AUTOFUND'',
      ''CONNECTOR_DEBUG_REPLY_NOTIFICATIONS'', ''CONNECTOR_BACKEND'',
      ''CONNECTOR_BACKEND_URI'']"

definition knobVariables :: "string list" where
  "knobVariables =
     [''CONNECTOR_MIN_MESSAGE_WINDOW'', ''CONNECTOR_MAX_HOLD_TIME'', ''CONNECTOR_FX_SPREAD'',
      ''CONNECTOR_SLIPPAGE'', ''CONNECTOR_ROUTE_BROADCAST_INTERVAL'',
      ''CONNECTOR_ROUTE_CLEANUP_INTERVAL'', ''CONNECTOR_ROUTE_EXPIRY'']"

definition sameOutside :: "world \<Rightarrow> world \<Rightarrow> bool" where
  "sameOutside w1 w2 =
     (argv0 w1 = argv0 w2 \<and> argv_rest w1 = argv_rest w2 \<and>
      accessSync w1 = accessSync w2 \<and> readFileSync w1 = readFileSync w2 \<and>
      testLedgerCredentials w1 = testLedgerCredentials w2 \<and>
      testTradingPairs w1 = testTradingPairs w2)"

definition sameCore :: "world \<Rightarrow> world \<Rightarrow> bool" where
  "sameCore w1 w2 =
     ((\<forall>v \<in> set coreVariables. process_env w1 v = process_env w2 v) \<and> sameOutside w1 w2)"

definition sameSnapshot :: "world \<Rightarrow> world \<Rightarrow> bool" where
  "sameSnapshot w1 w2 =
     ((\<forall>v \<in> set (coreVariables @ knobVariables). process_env w1 v = process_env w2 v) \<and>
      sameOutside w1 w2)"

section \<open>Properties of the ledger registry\<close>

text \<open>
  Claim C7. \<open>getStatus()\<close> answers true if and only if every registered handle answers
  true to \<open>isConnected()\<close>, and the registry after the poll is the registry before it.
\<close>

theorem getStatus_all_connected:
  "fst (getStatus isConnected m) = (\<forall>h \<in> set (map snd (ledgers m)). isConnected h) \<and>
   snd (getStatus isConnected m) = m"
  by (simp add: getStatus_def list_all_iff)

theorem getStatus_all_connected_witness:
  "fst (getStatus (\<lambda>h. True) sampleRegistry) = True \<and>
   fst (getStatus (\<lambda>h. id_opt (options h) = usdLedger) sampleRegistry) = False \<and>
   snd (getStatus (\<lambda>h. id_opt (options h) = usdLedger) sampleRegistry) = sampleRegistry"
  using getStatus_all_connected [of "\<lambda>h. True" sampleRegistry]
    getStatus_all_connected [of "\<lambda>h. id_opt (options h) = usdLedger" sampleRegistry]
  by (simp add: sampleRegistry_def sampleOptions_def usdLedger_def eurLedger_def)

text \<open>
  Claim C10. A registry built from a configuration without ledger credentials has no
  handle, carries the initial "not ok" health flag, and its \<open>getStatus()\<close> answers true
  whatever the plugins would answer: the conjunction over no handle.
\<close>

theorem getStatus_empty_registry:
  assumes "ledgerCredentials cfg = []"
  shows "\<exists>m. Multiledger ms L cfg = ([], Inr m) \<and> ledgers m = [] \<and>
             ledgersHealth m = statusNotOk \<and> fst (getStatus isConnected m) = True"
  using assms by (simp add: Multiledger_def buildLedgers_def getStatus_def)

theorem getStatus_empty_registry_witness:
  "\<exists>m. Multiledger Map.empty sampleLib (handedOver True (sampleConfig [])) = ([], Inr m) \<and>
       ledgers m = [] \<and>
       ledgersHealth m = statusNotOk \<and> fst (getStatus (\<lambda>h. False) m) = True"
proof -
  have "ledgerCredentials (handedOver True (sampleConfig [])) = []"
    by (simp add: handedOver_def sampleConfig_def config.defs)
  then show ?thesis
    by (rule getStatus_empty_registry)
qed

section \<open>Properties of the validation\<close>

text \<open>
  Claim C6. Validation runs the notification checks, then the credential checks, then the
  admin checks: an error of the notification checks is the error reported whatever the
  other two would find, an error of the credential checks is reported when the
  notification checks pass, and the admin checks decide only when both pass.
\<close>

theorem validation_order:
  "(validateNotificationEnv L w = Inl e \<longrightarrow> validateLocalEnvConfig L w = Inl e) \<and>
   (validateNotificationEnv L w = Inr () \<and> validateCredentialsEnv L w = Inl e \<longrightarrow>
      validateLocalEnvConfig L w = Inl e) \<and>
   (validateNotificationEnv L w = Inr () \<and> validateCredentialsEnv L w = Inr () \<longrightarrow>
      validateLocalEnvConfig L w = validateAdminEnv w)"
  by (simp add: validateLocalEnvConfig_def)

lemmas sample_defs =
  sampleLib_def sampleWorld_def usdLedger_def eurLedger_def quoted_def sampleLedgersText_def
  sampleLedgers_def emptyCredentialText_def twoCredentialsText_def twoCredentials_def
  completeCredential_def sampleCondition_def usdKeyText_def constructorLedgerText_def
  getEnv_def envPrefix_def parseOr_def

lemma allInvalid_notifications:
  "validateNotificationEnv sampleLib allInvalidWorld =
     Inl (MissingNotificationSigningKeys usdLedger)"
  by (simp add: validateNotificationEnv_def parseNotificationSignEnv_def parseLedgers_def
      allInvalidWorld_def sample_defs splitLedger_def readProperty_def isUndefined_def
      objectPrototypeMembers_def)

lemma allInvalid_credentials:
  "validateCredentialsEnv sampleLib allInvalidWorld = Inl (MissingKeyOrPassword usdLedger)"
  by (simp add: validateCredentialsEnv_def parseCredentialsEnv_def validateCredential_def
      allInvalidWorld_def sample_defs getField_def)

lemma allInvalid_admin: "validateAdminEnv allInvalidWorld = Inl MissingAdminCertOrKey"
  by (simp add: validateAdminEnv_def parseAdminEnv_def allInvalidWorld_def sample_defs)

theorem validation_order_witness:
  "validateNotificationEnv sampleLib allInvalidWorld =
     Inl (MissingNotificationSigningKeys usdLedger) \<and>
   validateCredentialsEnv sampleLib allInvalidWorld = Inl (MissingKeyOrPassword usdLedger) \<and>
   validateAdminEnv allInvalidWorld = Inl MissingAdminCertOrKey \<and>
   validateLocalEnvConfig sampleLib allInvalidWorld =
     Inl (MissingNotificationSigningKeys usdLedger)"
  using validation_order
          [of sampleLib allInvalidWorld "MissingNotificationSigningKeys usdLedger"]
    allInvalid_notifications allInvalid_credentials allInvalid_admin
  by simp

section \<open>The checks of the validation\<close>
















section \<open>Building the registry\<close>

lemma migrated_type:
  "getField (migrated c) ''type'' = jsOr (getField c ''type'') (JStr ''bells'')"
  by (simp add: migrated_def getField_def update_conv' delete_conv')

lemma migrated_account:
  assumes "truthy (getField c ''account_uri'')"
  shows "getField (migrated c) ''account'' = getField c ''account_uri''"
    and "map_of (migrated c) ''account_uri'' = None"
  using assms by (simp_all add: migrated_def getField_def update_conv' delete_conv')

lemma setCredential_fields:
  "features (setCredential k c cfg) = features cfg"
  "admin (setCredential k c cfg) = admin cfg"
  "server (setCredential k c cfg) = server cfg"
  "frozen (setCredential k c cfg) = frozen cfg"
  "map_of (ledgerCredentials (setCredential k c cfg)) = (map_of (ledgerCredentials cfg))(k \<mapsto> c)"
  by (simp_all add: setCredential_def update_conv')

lemma setCredential_same:
  "map_of (ledgerCredentials cfg) k = Some c \<Longrightarrow> setCredential k c cfg = cfg"
  by (simp add: setCredential_def update_triv)

lemma pluginOptions_setCredential:
  "pluginOptions (setCredential j d cfg) k c t = pluginOptions cfg k c t"
  by (simp add: pluginOptions_def setCredential_fields)

lemma setLedger_lookup:
  "map_of (setLedger k h reg) j =
     (if j = k \<and> k \<noteq> ''__proto__'' then Some h else map_of reg j)"
  by (simp add: setLedger_def update_conv')

text \<open>One round of the loop on a frozen configuration: the first write throws.\<close>

lemma buildLedger_frozen:
  assumes "frozen (config_now st)"
    and "map_of (ledgerCredentials (config_now st)) k = Some c"
  shows "buildLedger ms L k st =
           (if truthy (getField c ''account_uri'')
            then (Some (TypeError ''Cannot assign to property account of a frozen object''),
                  st\<lparr> logged := logged st @ [deprecationWarning] \<rparr>)
            else (Some (TypeError ''Cannot assign to property type of a frozen object''), st))"
  using assms
  by (simp add: buildLedger_def migrateAccountUri_def defaultType_def assignProperty_def
      setCredential_same)

text \<open>One round of the loop on a configuration that is not frozen.\<close>

lemma buildLedger_mutable:
  assumes "\<not> frozen (config_now st)"
    and "map_of (ledgerCredentials (config_now st)) k = Some c"
  shows "buildLedger ms L k st =
           (case pluginType L c of
              Inl e \<Rightarrow>
                (Some e,
                 st\<lparr> logged := (if truthy (getField c ''account_uri'')
                                 then logged st @ [deprecationWarning] else logged st),
                      config_now := setCredential k (migrated c) (config_now st) \<rparr>)
            | Inr t \<Rightarrow>
                (case ms (''ilp-plugin-'' @ t) of
                   None \<Rightarrow>
                     (Some (CannotFindModule (''ilp-plugin-'' @ t)),
                      st\<lparr> logged := (if truthy (getField c ''account_uri'')
                                      then logged st @ [deprecationWarning] else logged st),
                           config_now := setCredential k (migrated c) (config_now st) \<rparr>)
                 | Some cls \<Rightarrow>
                     (None,
                      st\<lparr> logged := (if truthy (getField c ''account_uri'')
                                      then logged st @ [deprecationWarning] else logged st),
                           config_now := setCredential k (migrated c) (config_now st),
                           registry :=
                             setLedger k
                               \<lparr> constructor_class = cls,
                                 options = pluginOptions (config_now st) k (migrated c) t \<rparr>
                               (registry st),
                           constructed :=
                             constructed st @
                               [\<lparr> constructor_class = cls,
                                  options = pluginOptions (config_now st) k (migrated c) t \<rparr>] \<rparr>)))"
proof -
  have m: "migrateAccountUri False (logged st) c =
             (if truthy (getField c ''account_uri'')
              then logged st @ [deprecationWarning] else logged st,
              Inr (if truthy (getField c ''account_uri'')
                   then AList.delete ''account_uri''
                          (AList.update ''account'' (getField c ''account_uri'') c)
                   else c))"
    by (simp add: migrateAccountUri_def assignProperty_def deleteProperty_def)
  have d: "defaultType False
             (if truthy (getField c ''account_uri'')
              then AList.delete ''account_uri''
                     (AList.update ''account'' (getField c ''account_uri'') c)
              else c) = Inr (migrated c)"
    by (simp add: defaultType_def assignProperty_def migrated_def getField_def
        update_conv' delete_conv')
  have t: "typeString L (getField (migrated c) ''type'') = pluginType L c"
    by (simp add: pluginType_def migrated_type)
  show ?thesis
    using assms
    by (cases "pluginType L c")
      (simp_all add: buildLedger_def m d t Let_def require_def pluginOptions_setCredential
        split: option.splits)
qed

lemma buildLedger_step:
  assumes "\<not> frozen (config_now st)"
    and "map_of (ledgerCredentials (config_now st)) k = Some c"
    and "pluginType L c = Inr t"
    and "ms (''ilp-plugin-'' @ t) = Some cls"
  shows "\<exists>st'. buildLedger ms L k st = (None, st') \<and>
           logged st' = (if truthy (getField c ''account_uri'')
                         then logged st @ [deprecationWarning] else logged st) \<and>
           config_now st' = setCredential k (migrated c) (config_now st) \<and>
           registry st' =
             setLedger k
               \<lparr> constructor_class = cls,
                 options = pluginOptions (config_now st) k (migrated c) t \<rparr> (registry st) \<and>
           constructed st' =
             constructed st @
               [\<lparr> constructor_class = cls,
                  options = pluginOptions (config_now st) k (migrated c) t \<rparr>]"
proof -
  have "buildLedger ms L k st =
          (None,
           st\<lparr> logged := (if truthy (getField c ''account_uri'')
                            then logged st @ [deprecationWarning] else logged st),
                config_now := setCredential k (migrated c) (config_now st),
                registry :=
                  setLedger k
                    \<lparr> constructor_class = cls,
                      options = pluginOptions (config_now st) k (migrated c) t \<rparr> (registry st),
                constructed :=
                  constructed st @
                    [\<lparr> constructor_class = cls,
                       options = pluginOptions (config_now st) k (migrated c) t \<rparr>] \<rparr>)"
    unfolding buildLedger_mutable [OF assms(1,2)] assms(3) sum.case assms(4) option.case
    by (rule refl)
  then show ?thesis by simp
qed

lemma buildsAll_nil: "buildsAll st [] st"
  by (simp add: buildsAll_def)

text \<open>A round for \<open>k\<close> followed by the rounds for other ledger ids.\<close>

lemma buildsAll_cons:
  assumes look: "map_of (ledgerCredentials (config_now st)) k = Some c"
    and lg: "logged st2 = (if truthy (getField c ''account_uri'')
                           then logged st @ [deprecationWarning] else logged st)"
    and cf: "config_now st2 = setCredential k (migrated c) (config_now st)"
    and rg: "registry st2 = setLedger k h (registry st)"
    and cn: "constructed st2 = constructed st @ [h]"
    and h: "id_opt (options h) = k" "auth (options h) = migrated c"
    and fresh: "k \<notin> set ks"
    and rest: "buildsAll st2 ks st'"
  shows "buildsAll st (k # ks) st'"
proof -
  from rest have fr: "frozen (config_now st') = frozen (config_now st2)"
    and lsub: "set (logged st2) \<subseteq> set (logged st')"
    and csub: "set (constructed st2) \<subseteq> set (constructed st')"
    and inn: "\<And>j d. j \<in> set ks \<Longrightarrow> map_of (ledgerCredentials (config_now st2)) j = Some d \<Longrightarrow>
                map_of (ledgerCredentials (config_now st')) j = Some (migrated d) \<and>
                (truthy (getField d ''account_uri'') \<longrightarrow> deprecationWarning \<in> set (logged st')) \<and>
                (\<exists>g \<in> set (constructed st').
                   id_opt (options g) = j \<and> auth (options g) = migrated d \<and>
                   (j \<noteq> ''__proto__'' \<longrightarrow> map_of (registry st') j = Some g))"
    and out: "\<And>j. j \<notin> set ks \<Longrightarrow>
                map_of (ledgerCredentials (config_now st')) j =
                  map_of (ledgerCredentials (config_now st2)) j \<and>
                map_of (registry st') j = map_of (registry st2) j"
    unfolding buildsAll_def by blast+
  have look2: "map_of (ledgerCredentials (config_now st2)) j =
                 (if j = k then Some (migrated c) else map_of (ledgerCredentials (config_now st)) j)"
    for j
    by (simp add: cf setCredential_fields)
  have reg2: "map_of (registry st2) j =
                (if j = k \<and> k \<noteq> ''__proto__'' then Some h else map_of (registry st) j)"
    for j
    by (simp add: rg setLedger_lookup)
  have a: "frozen (config_now st') = frozen (config_now st)"
    by (simp add: fr cf setCredential_fields)
  have b: "set (logged st) \<subseteq> set (logged st')"
    using lsub by (auto simp: lg split: if_splits)
  have c: "set (constructed st) \<subseteq> set (constructed st')"
    using csub by (auto simp: cn)
  have hk: "h \<in> set (constructed st')"
    using csub by (auto simp: cn)
  have here: "map_of (ledgerCredentials (config_now st')) k = Some (migrated c) \<and>
              (truthy (getField c ''account_uri'') \<longrightarrow> deprecationWarning \<in> set (logged st')) \<and>
              (\<exists>g \<in> set (constructed st').
                 id_opt (options g) = k \<and> auth (options g) = migrated c \<and>
                 (k \<noteq> ''__proto__'' \<longrightarrow> map_of (registry st') k = Some g))"
  proof (intro conjI)
    show "map_of (ledgerCredentials (config_now st')) k = Some (migrated c)"
      using out [OF fresh] by (simp add: look2)
    show "truthy (getField c ''account_uri'') \<longrightarrow> deprecationWarning \<in> set (logged st')"
      using lsub by (auto simp: lg)
    have "k \<noteq> ''__proto__'' \<longrightarrow> map_of (registry st') k = Some h"
      using out [OF fresh] by (simp add: reg2)
    with hk h show "\<exists>g \<in> set (constructed st').
                      id_opt (options g) = k \<and> auth (options g) = migrated c \<and>
                      (k \<noteq> ''__proto__'' \<longrightarrow> map_of (registry st') k = Some g)"
      by blast
  qed
  have later: "map_of (ledgerCredentials (config_now st')) j = Some (migrated d) \<and>
               (truthy (getField d ''account_uri'') \<longrightarrow> deprecationWarning \<in> set (logged st')) \<and>
               (\<exists>g \<in> set (constructed st').
                  id_opt (options g) = j \<and> auth (options g) = migrated d \<and>
                  (j \<noteq> ''__proto__'' \<longrightarrow> map_of (registry st') j = Some g))"
    if "j \<in> set ks" and "map_of (ledgerCredentials (config_now st)) j = Some d" for j d
  proof -
    from that(1) fresh have "j \<noteq> k" by auto
    with that(2) have "map_of (ledgerCredentials (config_now st2)) j = Some d"
      by (simp add: look2)
    with that(1) show ?thesis by (rule inn)
  qed
  have others: "map_of (ledgerCredentials (config_now st')) j =
                  map_of (ledgerCredentials (config_now st)) j \<and>
                map_of (registry st') j = map_of (registry st) j"
    if "j \<notin> set (k # ks)" for j
  proof -
    from that have "j \<notin> set ks" and "j \<noteq> k" by auto
    then show ?thesis
      using out [of j] by (simp add: look2 reg2)
  qed
  have both: "map_of (ledgerCredentials (config_now st')) j = Some (migrated d) \<and>
              (truthy (getField d ''account_uri'') \<longrightarrow> deprecationWarning \<in> set (logged st')) \<and>
              (\<exists>g \<in> set (constructed st').
                 id_opt (options g) = j \<and> auth (options g) = migrated d \<and>
                 (j \<noteq> ''__proto__'' \<longrightarrow> map_of (registry st') j = Some g))"
    if "j \<in> set (k # ks) \<and> map_of (ledgerCredentials (config_now st)) j = Some d" for j d
  proof (cases "j = k")
    case True
    with that look have "d = c" by simp
    with True here show ?thesis by simp
  next
    case False
    with that have "j \<in> set ks" by simp
    with that show ?thesis by (intro later) simp_all
  qed
  from a b c both others show ?thesis
    unfolding buildsAll_def by blast
qed

text \<open>
  On a configuration that is not frozen, when the plugin of every credential loads, the
  loop over distinct ledger ids throws nothing and builds them all.
\<close>

lemma forEachLedgerId_builds:
  assumes "\<not> frozen (config_now st)" and "distinct ks"
    and "\<forall>k \<in> set ks. \<exists>c. map_of (ledgerCredentials (config_now st)) k = Some c \<and>
                          pluginLoads ms L c"
  shows "\<exists>st'. forEachLedgerId ms L ks st = (None, st') \<and> buildsAll st ks st'"
  using assms
proof (induction ks arbitrary: st)
  case Nil
  show ?case by (simp add: buildsAll_nil)
next
  case (Cons k ks)
  from Cons.prems(3) obtain c where look: "map_of (ledgerCredentials (config_now st)) k = Some c"
    and loads: "pluginLoads ms L c" by auto
  from loads obtain t cls where t: "pluginType L c = Inr t"
    and cls: "ms (''ilp-plugin-'' @ t) = Some cls"
    by (auto simp: pluginLoads_def split: sum.splits)
  let ?h = "\<lparr> constructor_class = cls,
               options = pluginOptions (config_now st) k (migrated c) t \<rparr>"
  from buildLedger_step [where ms = ms and t = t, OF Cons.prems(1) look t cls] obtain st2 where
    run: "buildLedger ms L k st = (None, st2)"
    and lg: "logged st2 = (if truthy (getField c ''account_uri'')
                           then logged st @ [deprecationWarning] else logged st)"
    and cf: "config_now st2 = setCredential k (migrated c) (config_now st)"
    and rg: "registry st2 = setLedger k ?h (registry st)"
    and cn: "constructed st2 = constructed st @ [?h]"
    by blast
  from Cons.prems(2) have fresh: "k \<notin> set ks" and dist: "distinct ks"
    by simp_all
  have nf: "\<not> frozen (config_now st2)"
    using Cons.prems(1) by (simp add: cf setCredential_fields)
  have all: "\<forall>j \<in> set ks. \<exists>d. map_of (ledgerCredentials (config_now st2)) j = Some d \<and>
                           pluginLoads ms L d"
  proof
    fix j
    assume j: "j \<in> set ks"
    with fresh have "j \<noteq> k" by auto
    moreover from j Cons.prems(3) obtain d where
      "map_of (ledgerCredentials (config_now st)) j = Some d" and "pluginLoads ms L d"
      by auto
    ultimately show "\<exists>d. map_of (ledgerCredentials (config_now st2)) j = Some d \<and>
                         pluginLoads ms L d"
      by (simp add: cf setCredential_fields)
  qed
  from Cons.IH [OF nf dist all] obtain st' where
    rest: "forEachLedgerId ms L ks st2 = (None, st')" and inv: "buildsAll st2 ks st'"
    by blast
  have "buildsAll st (k # ks) st'"
    using look lg cf rg cn _ _ fresh inv
    by (rule buildsAll_cons) (simp_all add: pluginOptions_def)
  moreover have "forEachLedgerId ms L (k # ks) st = (None, st')"
    by (simp add: run rest)
  ultimately show ?case by blast
qed

lemma forEachLedgerId_append:
  "forEachLedgerId ms L (xs @ ys) st =
     (case forEachLedgerId ms L xs st of
        (Some e, st') \<Rightarrow> (Some e, st')
      | (None, st') \<Rightarrow> forEachLedgerId ms L ys st')"
proof (induction xs arbitrary: st)
  case Nil
  show ?case by simp
next
  case (Cons x xs)
  obtain r st1 where b: "buildLedger ms L x st = (r, st1)"
    by (cases "buildLedger ms L x st")
  show ?case
    by (cases r) (simp_all add: b Cons.IH)
qed

text \<open>On a frozen configuration the loop throws in its first round.\<close>

lemma forEachLedgerId_frozen:
  assumes "frozen (config_now st)"
    and "map_of (ledgerCredentials (config_now st)) k = Some c"
  shows "forEachLedgerId ms L (k # ks) st =
           (if truthy (getField c ''account_uri'')
            then (Some (TypeError ''Cannot assign to property account of a frozen object''),
                  st\<lparr> logged := logged st @ [deprecationWarning] \<rparr>)
            else (Some (TypeError ''Cannot assign to property type of a frozen object''), st))"
  by (simp add: buildLedger_frozen [OF assms])

text \<open>
  On a frozen configuration \<open>buildLedgers\<close> throws at the first write to the first
  credential, having constructed nothing.
\<close>

lemma buildLedgers_frozen:
  assumes "frozen cfg" and "ledgerCredentials cfg = (k, c) # rest"
  shows "buildLedgers ms L cfg =
           (if truthy (getField c ''account_uri'')
            then (Some (TypeError ''Cannot assign to property account of a frozen object''),
                  \<lparr> logged = [deprecationWarning], config_now = cfg, registry = [],
                    constructed = [] \<rparr>)
            else (Some (TypeError ''Cannot assign to property type of a frozen object''),
                  \<lparr> logged = [], config_now = cfg, registry = [], constructed = [] \<rparr>))"
proof -
  let ?st = "\<lparr> logged = [], config_now = cfg, registry = [], constructed = [] \<rparr>"
  have f: "frozen (config_now ?st)"
    using assms(1) by simp
  have l: "map_of (ledgerCredentials (config_now ?st)) k = Some c"
    using assms(2) by simp
  have "buildLedgers ms L cfg = forEachLedgerId ms L (k # map fst rest) ?st"
    by (simp add: buildLedgers_def assms(2))
  then show ?thesis
    unfolding forEachLedgerId_frozen [OF f l] by simp
qed

text \<open>A string that is not empty is the plugin type it names.\<close>

lemma pluginType_string:
  assumes "getField c ''type'' = JStr t" and "t \<noteq> []"
  shows "pluginType L c = Inr t"
  using assms by (simp add: pluginType_def typeString_def jsOr_def)

text \<open>
  On a configuration that is not frozen, after credentials whose plugins load, a
  credential whose module is not installed has \<open>buildLedgers\<close> throw the loader's error.
\<close>

lemma buildLedgers_unknown:
  assumes cfg: "ledgerCredentials cfg = pre @ (k, c) # post"
    and dist: "distinct (map fst (ledgerCredentials cfg))"
    and pre: "\<forall>(k', c') \<in> set pre. pluginLoads ms L c'"
    and t: "pluginType L c = Inr t"
    and none: "ms (''ilp-plugin-'' @ t) = None"
    and nf: "\<not> frozen cfg"
  shows "fst (buildLedgers ms L cfg) = Some (CannotFindModule (''ilp-plugin-'' @ t))"
proof -
  let ?st = "\<lparr> logged = [], config_now = cfg, registry = [], constructed = [] \<rparr>"
  have nf0: "\<not> frozen (config_now ?st)"
    using nf by simp
  have d: "distinct (map fst pre)" and fresh: "k \<notin> set (map fst pre)"
    using dist cfg by auto
  have all: "\<forall>j \<in> set (map fst pre). \<exists>d. map_of (ledgerCredentials (config_now ?st)) j = Some d \<and>
                                     pluginLoads ms L d"
  proof
    fix j
    assume "j \<in> set (map fst pre)"
    then obtain e where e: "(j, e) \<in> set pre"
      by auto
    then have "(j, e) \<in> set (ledgerCredentials cfg)"
      using cfg by simp
    with dist have "map_of (ledgerCredentials cfg) j = Some e"
      by simp
    moreover from e pre have "pluginLoads ms L e"
      by auto
    ultimately show "\<exists>d. map_of (ledgerCredentials (config_now ?st)) j = Some d \<and>
                         pluginLoads ms L d"
      by simp
  qed
  from forEachLedgerId_builds [OF nf0 d all] obtain st1 where
    run: "forEachLedgerId ms L (map fst pre) ?st = (None, st1)"
    and inv: "buildsAll ?st (map fst pre) st1"
    by blast
  from inv have nf1: "\<not> frozen (config_now st1)"
    using nf by (simp add: buildsAll_def)
  have "(k, c) \<in> set (ledgerCredentials cfg)"
    using cfg by simp
  with dist have "map_of (ledgerCredentials cfg) k = Some c"
    by simp
  with inv fresh have look: "map_of (ledgerCredentials (config_now st1)) k = Some c"
    by (simp add: buildsAll_def)
  have one: "fst (buildLedger ms L k st1) = Some (CannotFindModule (''ilp-plugin-'' @ t))"
    unfolding buildLedger_mutable [OF nf1 look] t sum.case none option.case
    by simp
  have "fst (forEachLedgerId ms L (k # map fst post) st1) =
          Some (CannotFindModule (''ilp-plugin-'' @ t))"
  proof (cases "buildLedger ms L k st1")
    case (Pair r st2)
    with one have "r = Some (CannotFindModule (''ilp-plugin-'' @ t))"
      by simp
    with Pair show ?thesis
      by simp
  qed
  moreover have "buildLedgers ms L cfg =
                   forEachLedgerId ms L (map fst pre @ k # map fst post) ?st"
    by (simp add: buildLedgers_def cfg)
  ultimately show ?thesis
    by (simp add: forEachLedgerId_append run)
qed

text \<open>
  On a configuration that is not frozen, with distinct ledger ids and every plugin
  loading, \<open>buildLedgers\<close> throws nothing and has built every credential.
\<close>

lemma buildLedgers_builds:
  assumes dist: "distinct (map fst (ledgerCredentials cfg))"
    and loads: "\<forall>(k', c') \<in> set (ledgerCredentials cfg). pluginLoads ms L c'"
    and nf: "\<not> frozen cfg"
  shows "\<exists>st. buildLedgers ms L cfg = (None, st) \<and>
              buildsAll \<lparr> logged = [], config_now = cfg, registry = [], constructed = [] \<rparr>
                (map fst (ledgerCredentials cfg)) st"
proof -
  let ?st = "\<lparr> logged = [], config_now = cfg, registry = [], constructed = [] \<rparr>"
  have nf0: "\<not> frozen (config_now ?st)"
    using nf by simp
  have all: "\<forall>j \<in> set (map fst (ledgerCredentials cfg)).
               \<exists>d. map_of (ledgerCredentials (config_now ?st)) j = Some d \<and> pluginLoads ms L d"
  proof
    fix j
    assume "j \<in> set (map fst (ledgerCredentials cfg))"
    then obtain e where e: "(j, e) \<in> set (ledgerCredentials cfg)"
      by auto
    with dist have "map_of (ledgerCredentials cfg) j = Some e"
      by simp
    moreover from e loads have "pluginLoads ms L e"
      by auto
    ultimately show "\<exists>d. map_of (ledgerCredentials (config_now ?st)) j = Some d \<and>
                         pluginLoads ms L d"
      by simp
  qed
  from forEachLedgerId_builds [OF nf0 dist all] show ?thesis
    by (simp add: buildLedgers_def)
qed

lemmas registry_sample_defs =
  legacyConfig_def unknownTypeConfig_def emptyAccountUriConfig_def handedOver_def
  sampleConfig_def config.defs connector_config.defs completeCredential_def
  emptyAccountUriCredential_def sampleModules_def sampleClass_def sampleLib_def
  usdLedger_def

text \<open>
  Claim C4, as amended. The registry has no table of plugin factories: the class is
  loaded with \<open>require('ilp-plugin-' + type)\<close>, after the writes to the credential.
  For a credential whose type names a module that is not installed, the credentials
  before it loading their plugins: when the configuration object is not frozen, the
  build fails with the module loader's own error for the module \<open>ilp-plugin-<type>\<close>;
  when it is frozen, the build fails before any \<open>require\<close>, with the \<open>TypeError\<close> of
  the first write to the first credential, and has constructed nothing. Neither is an
  error the source words itself.
\<close>

theorem unknown_plugin_type:
  assumes "ledgerCredentials cfg = pre @ (k, c) # post"
    and "distinct (map fst (ledgerCredentials cfg))"
    and "\<forall>(k', c') \<in> set pre. pluginLoads ms L c'"
    and "getField c ''type'' = JStr t" and "t \<noteq> []"
    and "ms (''ilp-plugin-'' @ t) = None"
  shows "(\<not> frozen cfg \<longrightarrow>
            fst (buildLedgers ms L cfg) = Some (CannotFindModule (''ilp-plugin-'' @ t))) \<and>
         (frozen cfg \<longrightarrow>
            (\<exists>m. fst (buildLedgers ms L cfg) = Some (TypeError m)) \<and>
            constructed (snd (buildLedgers ms L cfg)) = [] \<and>
            registry (snd (buildLedgers ms L cfg)) = []) \<and>
         message (CannotFindModule (''ilp-plugin-'' @ t)) = None \<and>
         (\<forall>m. message (TypeError m) = None)"
proof (intro conjI impI allI)
  assume "\<not> frozen cfg"
  with assms(1,2,3) pluginType_string [OF assms(4,5)] assms(6)
  show "fst (buildLedgers ms L cfg) = Some (CannotFindModule (''ilp-plugin-'' @ t))"
    by (rule buildLedgers_unknown)
next
  assume f: "frozen cfg"
  obtain k0 c0 rest where first: "ledgerCredentials cfg = (k0, c0) # rest"
    using assms(1) by (cases pre) auto
  show "\<exists>m. fst (buildLedgers ms L cfg) = Some (TypeError m)"
    by (simp add: buildLedgers_frozen [OF f first])
  show "constructed (snd (buildLedgers ms L cfg)) = []"
    by (simp add: buildLedgers_frozen [OF f first])
  show "registry (snd (buildLedgers ms L cfg)) = []"
    by (simp add: buildLedgers_frozen [OF f first])
next
  show "message (CannotFindModule (''ilp-plugin-'' @ t)) = None"
    by simp
next
  fix m
  show "message (TypeError m) = None"
    by simp
qed

theorem unknown_plugin_type_witness:
  "fst (buildLedgers sampleModules sampleLib (unknownTypeConfig False)) =
     Some (CannotFindModule ''ilp-plugin-nope'') \<and>
   (\<exists>m. fst (buildLedgers sampleModules sampleLib (unknownTypeConfig True)) =
           Some (TypeError m)) \<and>
   constructed (snd (buildLedgers sampleModules sampleLib (unknownTypeConfig True))) = [] \<and>
   message (CannotFindModule ''ilp-plugin-nope'') = None"
proof -
  have creds: "ledgerCredentials (unknownTypeConfig b) =
                 [] @ (usdLedger, completeCredential @ [(''type'', JStr ''nope'')]) # []" for b
    by (simp add: unknownTypeConfig_def handedOver_def sampleConfig_def config.defs)
  have dist: "distinct (map fst (ledgerCredentials (unknownTypeConfig b)))" for b
    by (simp add: creds)
  have pre: "\<forall>(k', c') \<in> set []. pluginLoads sampleModules sampleLib c'"
    by simp
  have ty: "getField (completeCredential @ [(''type'', JStr ''nope'')]) ''type'' = JStr ''nope''"
    by (simp add: getField_def completeCredential_def)
  have ne: "''nope'' \<noteq> []"
    by simp
  have none: "sampleModules (''ilp-plugin-'' @ ''nope'') = None"
    by (simp add: sampleModules_def)
  have froz: "frozen (unknownTypeConfig b) = b" for b
    by (simp add: unknownTypeConfig_def handedOver_def sampleConfig_def config.defs
        connector_config.defs)
  from unknown_plugin_type [OF creds dist pre ty ne none, of False]
       unknown_plugin_type [OF creds dist pre ty ne none, of True]
  show ?thesis
    by (simp add: froz)
qed

text \<open>
  The claim as the specification words it asks for a dedicated "no such plugin type"
  error: on the sample configuration that is not frozen the build ends in the loader's
  \<open>CannotFindModule\<close>, and on the frozen one in the \<open>TypeError\<close> of the write
  \<open>creds.account = creds.account_uri\<close>, before any module is looked for.
\<close>

theorem unknown_plugin_type_counterexample:
  "fst (buildLedgers sampleModules sampleLib (unknownTypeConfig False)) =
     Some (CannotFindModule ''ilp-plugin-nope'') \<and>
   buildLedgers sampleModules sampleLib (unknownTypeConfig True) =
     (Some (TypeError ''Cannot assign to property account of a frozen object''),
      \<lparr> logged = [deprecationWarning], config_now = unknownTypeConfig True, registry = [],
        constructed = [] \<rparr>)"
  by (simp add: buildLedgers_def buildLedger_def migrateAccountUri_def defaultType_def
      assignProperty_def deleteProperty_def typeString_def setCredential_def
      require_def getField_def jsOr_def registry_sample_defs)

text \<open>
  Claim C5, as amended. The migration is guarded by \<open>if (creds.account_uri)\<close> and
  writes to the credential object of the configuration. For every credential whose
  \<open>account_uri\<close> is truthy (a non-empty string), when every plugin module is
  installed: if the configuration object is not frozen, the build throws nothing, the
  credential handed to the plugin constructed for the ledger id has \<open>account\<close> equal to
  the original \<open>account_uri\<close> and no \<open>account_uri\<close> key, the deprecation warning has
  been logged, the handle is the registry's entry for the ledger id (unless the id is
  \<open>__proto__\<close>), and the configuration holds the migrated credential; if the
  configuration object is frozen, the build throws the \<open>TypeError\<close> of the first write
  to the first credential, with the configuration unchanged and nothing constructed, the
  warning being logged exactly when that first credential has a truthy \<open>account_uri\<close>.
\<close>

theorem account_uri_migrated:
  assumes "distinct (map fst (ledgerCredentials cfg))"
    and "(k, c) \<in> set (ledgerCredentials cfg)"
    and "truthy (getField c ''account_uri'')"
    and "\<forall>(k', c') \<in> set (ledgerCredentials cfg). pluginLoads ms L c'"
  shows "(\<not> frozen cfg \<longrightarrow>
            (\<exists>st h. buildLedgers ms L cfg = (None, st) \<and>
                    h \<in> set (constructed st) \<and>
                    id_opt (options h) = k \<and>
                    getField (auth (options h)) ''account'' = getField c ''account_uri'' \<and>
                    ''account_uri'' \<notin> fst ` set (auth (options h)) \<and>
                    deprecationWarning \<in> set (logged st) \<and>
                    (k \<noteq> ''__proto__'' \<longrightarrow> map_of (registry st) k = Some h) \<and>
                    map_of (ledgerCredentials (config_now st)) k = Some (auth (options h)))) \<and>
         (frozen cfg \<longrightarrow>
            (\<exists>m st. buildLedgers ms L cfg = (Some (TypeError m), st) \<and>
                    config_now st = cfg \<and> registry st = [] \<and> constructed st = [] \<and>
                    logged st =
                      (if truthy (getField (snd (hd (ledgerCredentials cfg))) ''account_uri'')
                       then [deprecationWarning] else [])))"
proof (intro conjI impI)
  assume nf: "\<not> frozen cfg"
  let ?st = "\<lparr> logged = [], config_now = cfg, registry = [], constructed = [] \<rparr>"
  from buildLedgers_builds [OF assms(1,4) nf] obtain st where
    run: "buildLedgers ms L cfg = (None, st)"
    and inv: "buildsAll ?st (map fst (ledgerCredentials cfg)) st"
    by blast
  have kin: "k \<in> set (map fst (ledgerCredentials cfg))"
    using assms(2) by force
  have look: "map_of (ledgerCredentials (config_now ?st)) k = Some c"
    using assms(1,2) by simp
  from inv kin look have now: "map_of (ledgerCredentials (config_now st)) k = Some (migrated c)"
    and warn: "truthy (getField c ''account_uri'') \<longrightarrow> deprecationWarning \<in> set (logged st)"
    and ex: "\<exists>h \<in> set (constructed st).
               id_opt (options h) = k \<and> auth (options h) = migrated c \<and>
               (k \<noteq> ''__proto__'' \<longrightarrow> map_of (registry st) k = Some h)"
    unfolding buildsAll_def by blast+
  from ex obtain h where h: "h \<in> set (constructed st)" "id_opt (options h) = k"
    "auth (options h) = migrated c" "k \<noteq> ''__proto__'' \<longrightarrow> map_of (registry st) k = Some h"
    by blast
  have acc: "getField (auth (options h)) ''account'' = getField c ''account_uri''"
    using assms(3) by (simp add: h(3) migrated_account)
  have gone: "''account_uri'' \<notin> fst ` set (auth (options h))"
    using migrated_account(2) [OF assms(3)] by (simp add: h(3) map_of_eq_None_iff)
  have "buildLedgers ms L cfg = (None, st) \<and>
        h \<in> set (constructed st) \<and>
        id_opt (options h) = k \<and>
        getField (auth (options h)) ''account'' = getField c ''account_uri'' \<and>
        ''account_uri'' \<notin> fst ` set (auth (options h)) \<and>
        deprecationWarning \<in> set (logged st) \<and>
        (k \<noteq> ''__proto__'' \<longrightarrow> map_of (registry st) k = Some h) \<and>
        map_of (ledgerCredentials (config_now st)) k = Some (auth (options h))"
    using run h(1,2,4) acc gone warn assms(3) now by (simp add: h(3))
  then
  show "\<exists>st h. buildLedgers ms L cfg = (None, st) \<and>
               h \<in> set (constructed st) \<and>
               id_opt (options h) = k \<and>
               getField (auth (options h)) ''account'' = getField c ''account_uri'' \<and>
               ''account_uri'' \<notin> fst ` set (auth (options h)) \<and>
               deprecationWarning \<in> set (logged st) \<and>
               (k \<noteq> ''__proto__'' \<longrightarrow> map_of (registry st) k = Some h) \<and>
               map_of (ledgerCredentials (config_now st)) k = Some (auth (options h))"
    by blast
next
  assume f: "frozen cfg"
  obtain k0 c0 rest where first: "ledgerCredentials cfg = (k0, c0) # rest"
    using assms(2) by (cases "ledgerCredentials cfg") auto
  show "\<exists>m st. buildLedgers ms L cfg = (Some (TypeError m), st) \<and>
               config_now st = cfg \<and> registry st = [] \<and> constructed st = [] \<and>
               logged st =
                 (if truthy (getField (snd (hd (ledgerCredentials cfg))) ''account_uri'')
                  then [deprecationWarning] else [])"
    by (simp add: buildLedgers_frozen [OF f first] first)
qed

theorem account_uri_migrated_witness:
  "(\<exists>st h. buildLedgers sampleModules sampleLib (legacyConfig False) = (None, st) \<and>
           h \<in> set (constructed st) \<and>
           id_opt (options h) = usdLedger \<and>
           getField (auth (options h)) ''account'' = JStr (usdLedger @ ''/accounts/mark'') \<and>
           ''account_uri'' \<notin> fst ` set (auth (options h)) \<and>
           deprecationWarning \<in> set (logged st) \<and>
           map_of (registry st) usdLedger = Some h \<and>
           map_of (ledgerCredentials (config_now st)) usdLedger = Some (auth (options h))) \<and>
   (\<exists>m st. buildLedgers sampleModules sampleLib (legacyConfig True) = (Some (TypeError m), st) \<and>
           config_now st = legacyConfig True \<and> registry st = [] \<and> constructed st = [] \<and>
           logged st = [deprecationWarning])"
proof -
  have creds: "ledgerCredentials (legacyConfig b) = [(usdLedger, completeCredential)]" for b
    by (simp add: legacyConfig_def handedOver_def sampleConfig_def config.defs)
  have dist: "distinct (map fst (ledgerCredentials (legacyConfig b)))" for b
    by (simp add: creds)
  have mem: "(usdLedger, completeCredential) \<in> set (ledgerCredentials (legacyConfig b))" for b
    by (simp add: creds)
  have uri: "getField completeCredential ''account_uri'' = JStr (usdLedger @ ''/accounts/mark'')"
    by (simp add: getField_def completeCredential_def)
  have tr: "truthy (getField completeCredential ''account_uri'')"
    by (simp add: uri usdLedger_def)
  have "pluginLoads sampleModules sampleLib completeCredential"
    by (simp add: pluginLoads_def pluginType_def typeString_def jsOr_def getField_def
        completeCredential_def sampleModules_def)
  then have loads: "\<forall>(k', c') \<in> set (ledgerCredentials (legacyConfig b)).
                      pluginLoads sampleModules sampleLib c'" for b
    by (simp add: creds)
  have froz: "frozen (legacyConfig b) = b" for b
    by (simp add: legacyConfig_def handedOver_def sampleConfig_def config.defs
        connector_config.defs)
  have name: "usdLedger \<noteq> ''__proto__''"
    by (simp add: usdLedger_def)
  from account_uri_migrated [OF dist mem tr loads, of False]
       account_uri_migrated [OF dist mem tr loads, of True]
  show ?thesis
    by (simp add: froz name uri creds tr)
qed

text \<open>
  The claim as the specification words it has every credential that supplies
  \<open>account_uri\<close> migrated without error. On the frozen sample configuration the
  warning is logged and the write \<open>creds.account = creds.account_uri\<close> throws, so no
  plugin is handed a credential; and on a configuration that is not frozen a credential
  whose \<open>account_uri\<close> is the empty string passes validation and is not migrated: the
  plugin receives it with \<open>account_uri\<close> still there and no \<open>account\<close>, and nothing is
  logged.
\<close>

theorem account_uri_migrated_counterexample:
  "buildLedgers sampleModules sampleLib (legacyConfig True) =
     (Some (TypeError ''Cannot assign to property account of a frozen object''),
      \<lparr> logged = [deprecationWarning], config_now = legacyConfig True, registry = [],
        constructed = [] \<rparr>) \<and>
   fst (buildLedgers sampleModules sampleLib emptyAccountUriConfig) = None \<and>
   logged (snd (buildLedgers sampleModules sampleLib emptyAccountUriConfig)) = [] \<and>
   constructed (snd (buildLedgers sampleModules sampleLib emptyAccountUriConfig)) =
     [\<lparr> constructor_class = sampleClass,
        options =
          \<lparr> id_opt = usdLedger,
            auth = [(''account_uri'', JStr []), (''username'', JStr ''mark''),
                    (''password'', JStr ''mark''), (''type'', JStr ''bells'')],
            debugReplyNotifications_opt = False,
            debugAutofund_opt = None,
            log_opt = ''plugin-bells'' \<rparr> \<rparr>] \<and>
   validateCredential (sampleWorld [] []) usdLedger
     [(''account_uri'', JStr []), (''username'', JStr ''mark''),
      (''password'', JStr ''mark'')] = Inr ()"
  by (simp add: buildLedgers_def buildLedger_def migrateAccountUri_def defaultType_def
      assignProperty_def deleteProperty_def typeString_def setCredential_def setLedger_def
      require_def getField_def jsOr_def pluginOptions_def Let_def
      validateCredential_def accessAll_def guardedAccess_def registry_sample_defs)

section \<open>What the assembly depends on\<close>

lemma sameCore_env:
  assumes "sameCore w1 w2"
  shows "process_env w1 ''NODE_ENV'' = process_env w2 ''NODE_ENV''"
    "process_env w1 ''UNIT_TEST_OVERRIDE'' = process_env w2 ''UNIT_TEST_OVERRIDE''"
    "getEnv w1 ''CREDENTIALS'' = getEnv w2 ''CREDENTIALS''"
    "getEnv w1 ''ADMIN_USER'' = getEnv w2 ''ADMIN_USER''"
    "getEnv w1 ''ADMIN_PASS'' = getEnv w2 ''ADMIN_PASS''"
    "getEnv w1 ''ADMIN_KEY'' = getEnv w2 ''ADMIN_KEY''"
    "getEnv w1 ''ADMIN_CERT'' = getEnv w2 ''ADMIN_CERT''"
    "getEnv w1 ''ADMIN_CA'' = getEnv w2 ''ADMIN_CA''"
    "getEnv w1 ''LEDGERS'' = getEnv w2 ''LEDGERS''"
    "getEnv w1 ''PAIRS'' = getEnv w2 ''PAIRS''"
    "getEnv w1 ''NOTIFICATION_VERIFY'' = getEnv w2 ''NOTIFICATION_VERIFY''"
    "getEnv w1 ''NOTIFICATION_KEYS'' = getEnv w2 ''NOTIFICATION_KEYS''"
    "getEnv w1 ''DEBUG_AUTOFUND'' = getEnv w2 ''DEBUG_AUTOFUND''"
    "getEnv w1 ''DEBUG_REPLY_NOTIFICATIONS'' = getEnv w2 ''DEBUG_REPLY_NOTIFICATIONS''"
    "getEnv w1 ''BACKEND'' = getEnv w2 ''BACKEND''"
    "getEnv w1 ''BACKEND_URI'' = getEnv w2 ''BACKEND_URI''"
  using assms by (simp_all add: sameCore_def coreVariables_def getEnv_def envPrefix_def)

lemma sameCore_outside:
  assumes "sameCore w1 w2"
  shows "argv0 w1 = argv0 w2" "argv_rest w1 = argv_rest w2"
    "accessSync w1 = accessSync w2" "readFileSync w1 = readFileSync w2"
    "testLedgerCredentials w1 = testLedgerCredentials w2"
    "testTradingPairs w1 = testTradingPairs w2"
  using assms by (simp_all add: sameCore_def sameOutside_def)

lemma sameCore_guardedAccess:
  assumes "sameCore w1 w2"
  shows "guardedAccess w1 = guardedAccess w2"
  by (intro ext) (simp add: guardedAccess_def sameCore_outside(3) [OF assms])

lemma sameCore_accessAll:
  assumes "sameCore w1 w2"
  shows "accessAll w1 = accessAll w2"
  unfolding accessAll_def sameCore_guardedAccess [OF assms] by (rule refl)

lemma sameCore_validateCredential:
  assumes "sameCore w1 w2"
  shows "validateCredential w1 = validateCredential w2"
  unfolding validateCredential_def sameCore_accessAll [OF assms] by (rule refl)

lemma sameCore_forEachCredential:
  assumes "sameCore w1 w2"
  shows "forEachCredential w1 cs = forEachCredential w2 cs"
proof (induction cs)
  case Nil
  show ?case by simp
next
  case (Cons a cs)
  obtain k c where a: "a = (k, c)" by (cases a)
  show ?case
    unfolding a forEachCredential.simps sameCore_validateCredential [OF assms] Cons.IH
    by (rule refl)
qed

lemma sameCore_parse:
  assumes "sameCore w1 w2"
  shows "parseCredentialsEnv L w1 = parseCredentialsEnv L w2"
    "parseAdminEnv w1 = parseAdminEnv w2"
    "parseLedgers L w1 = parseLedgers L w2"
    "parseNotificationSignEnv L w1 = parseNotificationSignEnv L w2"
  unfolding parseCredentialsEnv_def parseAdminEnv_def parseLedgers_def
    parseNotificationSignEnv_def sameCore_env [OF assms]
  by (rule refl)+

lemma sameCore_validate:
  assumes "sameCore w1 w2"
  shows "validateLocalEnvConfig L w1 = validateLocalEnvConfig L w2"
  unfolding validateLocalEnvConfig_def validateNotificationEnv_def
    validateCredentialsEnv_def validateAdminEnv_def sameCore_parse [OF assms]
    sameCore_forEachCredential [OF assms] sameCore_accessAll [OF assms]
  by (rule refl)

lemma sameCore_readFile:
  assumes "sameCore w1 w2"
  shows "readFile w1 = readFile w2"
  by (intro ext) (simp add: readFile_def sameCore_outside(4) [OF assms])

lemma sameCore_guardedRead:
  assumes "sameCore w1 w2"
  shows "guardedRead w1 = guardedRead w2"
  unfolding guardedRead_def sameCore_readFile [OF assms] by (rule refl)

lemma sameCore_resolveCredential:
  assumes "sameCore w1 w2"
  shows "resolveCredential w1 = resolveCredential w2"
  unfolding resolveCredential_def sameCore_readFile [OF assms]
    sameCore_guardedRead [OF assms]
  by (rule refl)

lemma sameCore_mapValues:
  assumes "sameCore w1 w2"
  shows "mapValues w1 cs = mapValues w2 cs"
proof (induction cs)
  case Nil
  show ?case by simp
next
  case (Cons a cs)
  obtain k c where a: "a = (k, c)" by (cases a)
  show ?case
    unfolding a mapValues.simps sameCore_resolveCredential [OF assms] Cons.IH
    by (rule refl)
qed

lemma sameCore_useTestConfig:
  assumes "sameCore w1 w2"
  shows "useTestConfig L w1 = useTestConfig L w2"
  unfolding useTestConfig_def isRunningTests_def sameCore_env [OF assms]
    sameCore_outside [OF assms]
  by (rule refl)

lemma sameCore_testOrLocal:
  assumes "sameCore w1 w2"
  shows "testOrLocal L w1 = testOrLocal L w2"
  unfolding testOrLocal_def parseCredentials_def sameCore_useTestConfig [OF assms]
    sameCore_parse [OF assms] sameCore_mapValues [OF assms] sameCore_outside [OF assms]
  by (rule refl)

lemma sameCore_resolveAdmin:
  assumes "sameCore w1 w2"
  shows "resolveAdmin w1 = resolveAdmin w2"
  unfolding resolveAdmin_def sameCore_guardedRead [OF assms] by (rule refl)

text \<open>Whether the assembly succeeds is decided by the core alone, not by the knobs.\<close>

lemma isl_bind:
  "isl (case x of Inl e \<Rightarrow> Inl e | Inr y \<Rightarrow> f y) =
     (case x of Inl e \<Rightarrow> True | Inr y \<Rightarrow> isl (f y))"
  by (cases x) simp_all

lemma isl_if: "isl (if b then x else y) = (if b then isl x else isl y)"
  by simp

lemma isl_prod:
  "isl (case p of (a, b, c, d) \<Rightarrow> f a b c d) = (case p of (a, b, c, d) \<Rightarrow> isl (f a b c d))"
  by (cases p) simp

lemma isl_ends: "isl (Inl e) = True" "isl (Inr v) = False"
  by simp_all

lemma sameCore_succeeds:
  assumes "sameCore w1 w2"
  shows "isl (getLocalConfig L w1) = isl (getLocalConfig L w2)"
  unfolding getLocalConfig_def Let_def sameCore_validate [OF assms]
    sameCore_parse [OF assms] sameCore_env [OF assms] sameCore_testOrLocal [OF assms]
    sameCore_resolveAdmin [OF assms] isl_bind isl_if isl_prod isl_ends
  by (rule refl)

lemma sameSnapshot_core: "sameSnapshot w1 w2 \<Longrightarrow> sameCore w1 w2"
  by (simp add: sameSnapshot_def sameCore_def)

lemma sameSnapshot_knobs:
  assumes "sameSnapshot w1 w2"
  shows "getEnv w1 ''MIN_MESSAGE_WINDOW'' = getEnv w2 ''MIN_MESSAGE_WINDOW''"
    "getEnv w1 ''MAX_HOLD_TIME'' = getEnv w2 ''MAX_HOLD_TIME''"
    "getEnv w1 ''FX_SPREAD'' = getEnv w2 ''FX_SPREAD''"
    "getEnv w1 ''SLIPPAGE'' = getEnv w2 ''SLIPPAGE''"
    "getEnv w1 ''ROUTE_BROADCAST_INTERVAL'' = getEnv w2 ''ROUTE_BROADCAST_INTERVAL''"
    "getEnv w1 ''ROUTE_CLEANUP_INTERVAL'' = getEnv w2 ''ROUTE_CLEANUP_INTERVAL''"
    "getEnv w1 ''ROUTE_EXPIRY'' = getEnv w2 ''ROUTE_EXPIRY''"
  using assms by (simp_all add: sameSnapshot_def knobVariables_def getEnv_def envPrefix_def)

text \<open>What a successful assembly returns, field by field.\<close>

lemma getLocalConfig_numbers:
  assumes "getLocalConfig L w = Inr c"
  shows "fxSpread c = numberIfSet L (getEnv w ''FX_SPREAD'') DEFAULT_FX_SPREAD"
    "slippage c = numberIfSet L (getEnv w ''SLIPPAGE'') DEFAULT_SLIPPAGE"
    "minMessageWindow (expiry c) =
       numberOr (unaryPlus L (getEnv w ''MIN_MESSAGE_WINDOW'')) DEFAULT_MIN_MESSAGE_WINDOW"
    "maxHoldTime (expiry c) =
       numberOr (unaryPlus L (getEnv w ''MAX_HOLD_TIME'')) DEFAULT_MAX_HOLD_TIME"
    "routeBroadcastInterval c =
       numberOr (unaryPlus L (getEnv w ''ROUTE_BROADCAST_INTERVAL''))
         DEFAULT_ROUTE_BROADCAST_INTERVAL"
    "routeCleanupInterval c =
       numberOr (unaryPlus L (getEnv w ''ROUTE_CLEANUP_INTERVAL''))
         DEFAULT_ROUTE_CLEANUP_INTERVAL"
    "routeExpiry c =
       numberOr (unaryPlus L (getEnv w ''ROUTE_EXPIRY'')) DEFAULT_ROUTE_EXPIRY"
  using assms unfolding getLocalConfig_def
  by (auto simp: Let_def split: sum.splits if_splits prod.splits)

lemma getLocalConfig_tradingPairs:
  assumes "getLocalConfig L w = Inr c" and "parseLedgers L w = Inr ls"
  shows "\<exists>pairsEnv srv creds rn.
           parseOr (jsonPairs L) (getEnv w ''PAIRS'') (JBool False) = Inr pairsEnv \<and>
           testOrLocal L w
             (if truthy pairsEnv then pairsEnv else generateDefaultPairs L ls)
             (castBool L (getEnv w ''DEBUG_REPLY_NOTIFICATIONS'') None) =
               Inr (srv, creds, tradingPairs c, rn)"
  using assms unfolding getLocalConfig_def
  by (auto simp: Let_def split: sum.splits if_splits prod.splits)

lemmas assembly_defs =
  getLocalConfig_def validateLocalEnvConfig_def validateNotificationEnv_def
  validateCredentialsEnv_def validateAdminEnv_def parseNotificationSignEnv_def
  parseCredentialsEnv_def parseAdminEnv_def parseLedgers_def splitLedger_def
  accessAll_def guardedAccess_def ofEnv_def jsAnd_def jsOr_def resolveAdmin_def
  testOrLocal_def useTestConfig_def isRunningTests_def endsWith_def parseCredentials_def
  generateDefaultPairs_def numberIfSet_def numberOr_def unaryPlus_def
  DEFAULT_FX_SPREAD_def DEFAULT_SLIPPAGE_def DEFAULT_MIN_MESSAGE_WINDOW_def
  DEFAULT_MAX_HOLD_TIME_def DEFAULT_ROUTE_BROADCAST_INTERVAL_def
  DEFAULT_ROUTE_CLEANUP_INTERVAL_def DEFAULT_ROUTE_EXPIRY_def

text \<open>
  Claim C9. Two runs of the assembly in processes that agree on the twenty-three
  variables it reads, on the command line, on the file system and on the fixtures return
  the same result, the same configuration or the same error, whatever else differs
  between the two environments.
\<close>

theorem assembly_deterministic:
  assumes "sameSnapshot w1 w2"
  shows "getLocalConfig L w1 = getLocalConfig L w2"
proof -
  note core = sameSnapshot_core [OF assms]
  show ?thesis
    unfolding getLocalConfig_def sameCore_validate [OF core] sameCore_parse [OF core]
      sameCore_env [OF core] sameCore_testOrLocal [OF core] sameCore_resolveAdmin [OF core]
      sameSnapshot_knobs [OF assms]
    by (rule refl)
qed

theorem assembly_deterministic_witness:
  "sameSnapshot (homeWorld ''/root'') (homeWorld ''/home/connector'') \<and>
   process_env (homeWorld ''/root'') ''HOME'' \<noteq>
     process_env (homeWorld ''/home/connector'') ''HOME'' \<and>
   getLocalConfig sampleLib (homeWorld ''/root'') =
     getLocalConfig sampleLib (homeWorld ''/home/connector'')"
proof -
  have same: "sameSnapshot (homeWorld ''/root'') (homeWorld ''/home/connector'')"
    by (simp add: sameSnapshot_def sameOutside_def coreVariables_def knobVariables_def
        homeWorld_def sampleWorld_def)
  have differ: "process_env (homeWorld ''/root'') ''HOME'' \<noteq>
                  process_env (homeWorld ''/home/connector'') ''HOME''"
    by (simp add: homeWorld_def sampleWorld_def)
  show ?thesis
    using same differ assembly_deterministic [OF same, of sampleLib] by simp
qed

text \<open>
  Claim C3, as amended. In a successful assembly, each of \<open>expiry.minMessageWindow\<close>,
  \<open>expiry.maxHoldTime\<close>, \<open>routeBroadcastInterval\<close>, \<open>routeCleanupInterval\<close> and
  \<open>routeExpiry\<close> equals its default (1, 10, 30000, 1000, 45000) when its override is
  absent or does not convert to a number; \<open>fxSpread\<close> and \<open>slippage\<close> equal their
  defaults (0.002, 0.001) when the override is absent or empty, and are the conversion of
  the override, \<open>NaN\<close> for a text that is not a number, when it is not empty. The knobs
  never make the assembly fail: it succeeds in every process that agrees with a
  successful one on everything but the seven knob variables.
\<close>

theorem numeric_knobs:
  assumes "getLocalConfig L w = Inr c"
  shows "(absentOrUnparsable L (getEnv w ''MIN_MESSAGE_WINDOW'') \<longrightarrow>
            minMessageWindow (expiry c) = Number 1) \<and>
         (absentOrUnparsable L (getEnv w ''MAX_HOLD_TIME'') \<longrightarrow>
            maxHoldTime (expiry c) = Number 10) \<and>
         (absentOrUnparsable L (getEnv w ''ROUTE_BROADCAST_INTERVAL'') \<longrightarrow>
            routeBroadcastInterval c = Number 30000) \<and>
         (absentOrUnparsable L (getEnv w ''ROUTE_CLEANUP_INTERVAL'') \<longrightarrow>
            routeCleanupInterval c = Number 1000) \<and>
         (absentOrUnparsable L (getEnv w ''ROUTE_EXPIRY'') \<longrightarrow>
            routeExpiry c = Number 45000) \<and>
         (getEnv w ''FX_SPREAD'' = None \<or> getEnv w ''FX_SPREAD'' = Some [] \<longrightarrow>
            fxSpread c = Number (2 / 1000)) \<and>
         (getEnv w ''SLIPPAGE'' = None \<or> getEnv w ''SLIPPAGE'' = Some [] \<longrightarrow>
            slippage c = Number (1 / 1000)) \<and>
         (\<forall>s. getEnv w ''FX_SPREAD'' = Some s \<and> s \<noteq> [] \<longrightarrow> fxSpread c = toNumber L s) \<and>
         (\<forall>s. getEnv w ''SLIPPAGE'' = Some s \<and> s \<noteq> [] \<longrightarrow> slippage c = toNumber L s) \<and>
         (\<forall>w'. sameCore w w' \<longrightarrow> (\<exists>c'. getLocalConfig L w' = Inr c'))"
proof -
  have succeeds: "\<forall>w'. sameCore w w' \<longrightarrow> (\<exists>c'. getLocalConfig L w' = Inr c')"
  proof (intro allI impI)
    fix w'
    assume "sameCore w w'"
    then have "isl (getLocalConfig L w') = isl (getLocalConfig L w)"
      by (simp add: sameCore_succeeds)
    with assms show "\<exists>c'. getLocalConfig L w' = Inr c'"
      by (cases "getLocalConfig L w'") simp_all
  qed
  have defaults:
    "\<And>v d. absentOrUnparsable L v \<Longrightarrow> numberOr (unaryPlus L v) d = d"
    by (auto simp: absentOrUnparsable_def numberOr_def unaryPlus_def split: option.splits)
  have unset: "\<And>v d. v = None \<or> v = Some [] \<Longrightarrow> numberIfSet L v d = d"
    by (auto simp: numberIfSet_def ofEnv_def)
  have set: "\<And>s d. s \<noteq> [] \<Longrightarrow> numberIfSet L (Some s) d = toNumber L s"
    by (simp add: numberIfSet_def ofEnv_def unaryPlus_def)
  show ?thesis
    using succeeds
    by (auto simp: getLocalConfig_numbers [OF assms] defaults unset set
        DEFAULT_FX_SPREAD_def DEFAULT_SLIPPAGE_def DEFAULT_MIN_MESSAGE_WINDOW_def
        DEFAULT_MAX_HOLD_TIME_def DEFAULT_ROUTE_BROADCAST_INTERVAL_def
        DEFAULT_ROUTE_CLEANUP_INTERVAL_def DEFAULT_ROUTE_EXPIRY_def)
qed

lemma unparsableKnobs_config:
  "getLocalConfig sampleLib unparsableKnobsWorld =
     Inr \<lparr> backend = ''fixerio'', ledgerCredentials = [], fxSpread = NaN,
           slippage = Number (1 / 1000),
           expiry = \<lparr> minMessageWindow = Number 1, maxHoldTime = Number 10 \<rparr>,
           features = \<lparr> debugAutoFund = False, debugReplyNotifications = False \<rparr>,
           admin = None, tradingPairs = JArr [], server = \<lparr> base_uri = None \<rparr>,
           backendUri = None, notifications = \<lparr> must_verify = False, keys = [] \<rparr>,
           routeBroadcastInterval = Number 30000, routeCleanupInterval = Number 1000,
           routeExpiry = Number 45000 \<rparr>"
  by (simp add: unparsableKnobsWorld_def assembly_defs sample_defs)

theorem numeric_knobs_witness:
  "absentOrUnparsable sampleLib (getEnv unparsableKnobsWorld ''MIN_MESSAGE_WINDOW'') \<and>
   absentOrUnparsable sampleLib (getEnv unparsableKnobsWorld ''MAX_HOLD_TIME'') \<and>
   getEnv unparsableKnobsWorld ''SLIPPAGE'' = None \<and>
   map_sum id (\<lambda>c. (minMessageWindow (expiry c), maxHoldTime (expiry c), slippage c))
     (getLocalConfig sampleLib unparsableKnobsWorld) =
     Inr (Number 1, Number 10, Number (1 / 1000))"
proof -
  have a: "absentOrUnparsable sampleLib (getEnv unparsableKnobsWorld ''MIN_MESSAGE_WINDOW'')"
    by (simp add: absentOrUnparsable_def unparsableKnobsWorld_def sample_defs)
  have b: "absentOrUnparsable sampleLib (getEnv unparsableKnobsWorld ''MAX_HOLD_TIME'')"
    by (simp add: absentOrUnparsable_def unparsableKnobsWorld_def sample_defs)
  have c: "getEnv unparsableKnobsWorld ''SLIPPAGE'' = None"
    by (simp add: unparsableKnobsWorld_def sample_defs)
  obtain cfg where run: "getLocalConfig sampleLib unparsableKnobsWorld = Inr cfg"
    using unparsableKnobs_config by blast
  show ?thesis
    using numeric_knobs [OF run] a b c by (simp add: run)
qed

text \<open>
  The claim as the specification words it gives every knob its default when the override
  does not parse. With \<open>FX_SPREAD=abc\<close> the assembly succeeds and the spread is
  \<open>NaN\<close>, not 0.002: the spread and the slippage are resolved by
  \<open>s ? +s : DEFAULT\<close>, which takes the default for an unset or empty text only.
\<close>

theorem numeric_knobs_counterexample:
  "getEnv unparsableKnobsWorld ''FX_SPREAD'' = Some ''abc'' \<and>
   toNumber sampleLib ''abc'' = NaN \<and>
   map_sum id fxSpread (getLocalConfig sampleLib unparsableKnobsWorld) = Inr NaN \<and>
   NaN \<noteq> Number (2 / 1000)"
  by (simp add: unparsableKnobs_config) (simp add: unparsableKnobsWorld_def sample_defs)

lemma testOrLocal_array:
  assumes "testOrLocal L w (JArr xs) rn0 = Inr (srv, creds, tp, rn)"
  shows "tp = (if useTestConfig L w \<and> xs = [] then testTradingPairs w else JArr xs)"
  using assms by (auto simp: testOrLocal_def lengthOf_def split: if_splits sum.splits)

text \<open>
  Claim C2, as amended. In a successful assembly outside test mode: when \<open>PAIRS\<close> is
  absent the trading pairs are the generated default pairs over the configured ledgers;
  when \<open>PAIRS\<close> is an explicit empty list the trading pairs are that empty list, since an
  empty array is truthy and the fallback \<open>||\<close> does not fire. In test mode an empty
  result of either case is replaced by the fixture pairs.
\<close>

theorem trading_pairs_fallback:
  assumes "getLocalConfig L w = Inr c" and "parseLedgers L w = Inr ls"
  shows "(\<not> useTestConfig L w \<and> getEnv w ''PAIRS'' = None \<longrightarrow>
            tradingPairs c = generateDefaultPairs L ls) \<and>
         (\<not> useTestConfig L w \<and> getEnv w ''PAIRS'' = Some s \<and> s \<noteq> [] \<and>
          jsonPairs L s = Some (JArr []) \<longrightarrow>
            tradingPairs c = JArr []) \<and>
         (useTestConfig L w \<and> getEnv w ''PAIRS'' = None \<longrightarrow>
            tradingPairs c =
              (if getPairs L ls = [] then testTradingPairs w
               else generateDefaultPairs L ls)) \<and>
         (useTestConfig L w \<and> getEnv w ''PAIRS'' = Some s \<and> s \<noteq> [] \<and>
          jsonPairs L s = Some (JArr []) \<longrightarrow>
            tradingPairs c = testTradingPairs w)"
proof -
  from getLocalConfig_tradingPairs [OF assms] obtain pairsEnv srv creds rn where
    pe: "parseOr (jsonPairs L) (getEnv w ''PAIRS'') (JBool False) = Inr pairsEnv"
    and tl: "testOrLocal L w
               (if truthy pairsEnv then pairsEnv else generateDefaultPairs L ls)
               (castBool L (getEnv w ''DEBUG_REPLY_NOTIFICATIONS'') None) =
                 Inr (srv, creds, tradingPairs c, rn)"
    by blast
  have absent: "tradingPairs c =
                  (if useTestConfig L w \<and> getPairs L ls = [] then testTradingPairs w
                   else generateDefaultPairs L ls)"
    if "getEnv w ''PAIRS'' = None"
  proof -
    from pe that have "pairsEnv = JBool False"
      by (simp add: parseOr_def)
    with tl have "testOrLocal L w (generateDefaultPairs L ls)
                    (castBool L (getEnv w ''DEBUG_REPLY_NOTIFICATIONS'') None) =
                      Inr (srv, creds, tradingPairs c, rn)"
      by simp
    then show ?thesis
      unfolding generateDefaultPairs_def by (rule testOrLocal_array [THEN trans]) simp
  qed
  have empty: "tradingPairs c = (if useTestConfig L w then testTradingPairs w else JArr [])"
    if "getEnv w ''PAIRS'' = Some s" and "s \<noteq> []" and "jsonPairs L s = Some (JArr [])"
  proof -
    from pe that have "pairsEnv = JArr []"
      by (simp add: parseOr_def)
    with tl have "testOrLocal L w (JArr [])
                    (castBool L (getEnv w ''DEBUG_REPLY_NOTIFICATIONS'') None) =
                      Inr (srv, creds, tradingPairs c, rn)"
      by simp
    then show ?thesis
      by (rule testOrLocal_array [THEN trans]) simp
  qed
  show ?thesis
    using absent empty by simp
qed

lemma emptyPairs_config:
  "getLocalConfig sampleLib emptyPairsWorld =
     Inr \<lparr> backend = ''fixerio'', ledgerCredentials = [], fxSpread = Number (2 / 1000),
           slippage = Number (1 / 1000),
           expiry = \<lparr> minMessageWindow = Number 1, maxHoldTime = Number 10 \<rparr>,
           features = \<lparr> debugAutoFund = False, debugReplyNotifications = False \<rparr>,
           admin = None, tradingPairs = JArr [], server = \<lparr> base_uri = None \<rparr>,
           backendUri = None, notifications = \<lparr> must_verify = False, keys = [] \<rparr>,
           routeBroadcastInterval = Number 30000, routeCleanupInterval = Number 1000,
           routeExpiry = Number 45000 \<rparr>"
  by (simp add: emptyPairsWorld_def assembly_defs sample_defs)

lemma emptyPairs_ledgers: "parseLedgers sampleLib emptyPairsWorld = Inr [usdDesc, eurDesc]"
  by (simp add: parseLedgers_def splitLedger_def emptyPairsWorld_def usdDesc_def
      eurDesc_def sample_defs)

lemma sample_defaultPairs:
  "generateDefaultPairs sampleLib [usdDesc, eurDesc] =
     JArr [JArr [JStr (''USD@'' @ usdLedger), JStr (''EUR@'' @ eurLedger)]]"
  by (simp add: generateDefaultPairs_def usdDesc_def eurDesc_def sampleLib_def)

lemma ledgersOnly_succeeds: "\<exists>c. getLocalConfig sampleLib ledgersOnlyWorld = Inr c"
  by (simp add: ledgersOnlyWorld_def assembly_defs sample_defs)

lemma ledgersOnly_ledgers: "parseLedgers sampleLib ledgersOnlyWorld = Inr [usdDesc, eurDesc]"
  by (simp add: parseLedgers_def splitLedger_def ledgersOnlyWorld_def usdDesc_def
      eurDesc_def sample_defs)

theorem trading_pairs_fallback_witness:
  "map_sum id tradingPairs (getLocalConfig sampleLib ledgersOnlyWorld) =
     Inr (JArr [JArr [JStr (''USD@'' @ usdLedger), JStr (''EUR@'' @ eurLedger)]]) \<and>
   map_sum id tradingPairs (getLocalConfig sampleLib emptyPairsWorld) = Inr (JArr [])"
proof -
  obtain c1 where r1: "getLocalConfig sampleLib ledgersOnlyWorld = Inr c1"
    using ledgersOnly_succeeds by blast
  obtain c2 where r2: "getLocalConfig sampleLib emptyPairsWorld = Inr c2"
    using emptyPairs_config by blast
  have n1: "\<not> useTestConfig sampleLib ledgersOnlyWorld"
    and p1: "getEnv ledgersOnlyWorld ''PAIRS'' = None"
    by (simp_all add: useTestConfig_def isRunningTests_def endsWith_def
        ledgersOnlyWorld_def sample_defs)
  have n2: "\<not> useTestConfig sampleLib emptyPairsWorld"
    and p2: "getEnv emptyPairsWorld ''PAIRS'' = Some ''[]''"
    and d2: "jsonPairs sampleLib ''[]'' = Some (JArr [])"
    by (simp_all add: useTestConfig_def isRunningTests_def endsWith_def
        emptyPairsWorld_def sample_defs)
  show ?thesis
    using trading_pairs_fallback [OF r1 ledgersOnly_ledgers, of "[]"]
      trading_pairs_fallback [OF r2 emptyPairs_ledgers, of "''[]''"]
      n1 p1 n2 p2 d2
    by (simp add: r1 r2 sample_defaultPairs)
qed

text \<open>
  The claim as the specification words it has an explicit empty list trigger the
  generation of the default pairs. With two ledgers and \<open>PAIRS=[]\<close>, outside test mode,
  the assembled trading pairs are the empty list, not the one generated pair.
\<close>

theorem trading_pairs_fallback_counterexample:
  "getEnv emptyPairsWorld ''PAIRS'' = Some ''[]'' \<and>
   jsonPairs sampleLib ''[]'' = Some (JArr []) \<and>
   parseLedgers sampleLib emptyPairsWorld = Inr [usdDesc, eurDesc] \<and>
   generateDefaultPairs sampleLib [usdDesc, eurDesc] =
     JArr [JArr [JStr (''USD@'' @ usdLedger), JStr (''EUR@'' @ eurLedger)]] \<and>
   map_sum id tradingPairs (getLocalConfig sampleLib emptyPairsWorld) = Inr (JArr [])"
  by (simp add: emptyPairs_config emptyPairs_ledgers sample_defaultPairs)
    (simp add: emptyPairsWorld_def sample_defs)

end
